theory Spec2Isabelle
  imports Main "HOL-Library.Char_ord" "HOL-Library.List_Lexorder"
begin

section \<open>Exceptions\<close>

text \<open>
  Every Python exception the modelled code can meet, with the text \<open>str(e)\<close> gives.
  \<open>GithubException\<close> is the error class of the GitHub client library, the only one the
  aggregator catches. \<open>IntegrityError\<close> is what the store raises when a flush breaks the
  constraint \<open>uix_user_log_date\<close>; \<open>PendingRollbackError\<close> is what the session raises
  when it is used after a failed flush and before a rollback. \<open>OtherException\<close> stands
  for any other class (a network error, a type error).
\<close>

datatype exn =
    GithubException string
  | IntegrityError string
  | PendingRollbackError string
  | AttributeError string
  | IndexError string
  | OtherException string

fun str_exn :: "exn \<Rightarrow> string" where
  "str_exn (GithubException m) = m"
| "str_exn (IntegrityError m) = m"
| "str_exn (PendingRollbackError m) = m"
| "str_exn (AttributeError m) = m"
| "str_exn (IndexError m) = m"
| "str_exn (OtherException m) = m"

fun is_GithubException :: "exn \<Rightarrow> bool" where
  "is_GithubException (GithubException m) = True"
| "is_GithubException e = False"

section \<open>Dates, datetimes and timezones (app/utils/time\_utils.py)\<close>

text \<open>
  A \<open>date\<close> is its proleptic Gregorian ordinal (\<open>date.toordinal()\<close>). A wall-clock
  reading (a naive datetime) is the number of microseconds since midnight of ordinal day
  0. An aware datetime carries its wall-clock reading and the UTC offset of its zone at
  that reading, both in microseconds; Python compares aware datetimes by the instant
  \<open>wall - offset\<close>.
\<close>

type_synonym date = int

record datetime =
  wall :: int
  utcoffset :: int

definition day_us :: int where
  "day_us = 86400000000"

definition instant :: "datetime \<Rightarrow> int" where
  "instant dt = wall dt - utcoffset dt"

definition dt_less :: "datetime \<Rightarrow> datetime \<Rightarrow> bool" where
  "dt_less a b = (instant a < instant b)"

definition dt_date :: "datetime \<Rightarrow> date" where
  "dt_date dt = wall dt div day_us"

text \<open>\<open>datetime.min.time()\<close> is 00:00:00 and \<open>datetime.max.time()\<close> is 23:59:59.999999.\<close>

definition min_time :: int where
  "min_time = 0"

definition max_time :: int where
  "max_time = 86399999999"

definition combine :: "date \<Rightarrow> int \<Rightarrow> int" where
  "combine d t = d * day_us + t"

text \<open>
  A pytz zone gives the offset in force at a wall-clock reading (\<open>tz.localize\<close>) and the
  offset in force at a UTC instant (\<open>datetime.now(tz)\<close>).
\<close>

record tzinfo =
  offset_at_wall :: "int \<Rightarrow> int"
  offset_at_utc :: "int \<Rightarrow> int"

definition UTC :: tzinfo where
  "UTC = \<lparr>offset_at_wall = (\<lambda>w. 0), offset_at_utc = (\<lambda>t. 0)\<rparr>"

definition localize :: "tzinfo \<Rightarrow> int \<Rightarrow> datetime" where
  "localize tz w = \<lparr>wall = w, utcoffset = offset_at_wall tz w\<rparr>"

definition datetime_now :: "tzinfo \<Rightarrow> int \<Rightarrow> datetime" where
  "datetime_now tz now_utc =
     \<lparr>wall = now_utc + offset_at_utc tz now_utc, utcoffset = offset_at_utc tz now_utc\<rparr>"

text \<open>
  The process-wide settings (app/config.py; only the field the modelled code reads) and
  what the libraries underneath supply: the zone database of pytz (\<open>None\<close> where
  \<open>pytz.timezone\<close> raises \<open>UnknownTimeZoneError\<close>), the UTC instant the system clock
  shows during the call being modelled, and the texts the database engine and the session
  put into their two exceptions.
\<close>

record settings =
  timezone :: string

record runtime =
  cfg :: settings
  pytz_timezone :: "string \<Rightarrow> tzinfo option"
  clock :: int
  integrity_text :: string
  pending_rollback_text :: string

definition get_timezone :: "runtime \<Rightarrow> string option \<Rightarrow> tzinfo" where
  "get_timezone rt tz_name =
     (let name = (case tz_name of None \<Rightarrow> timezone (cfg rt) | Some n \<Rightarrow> n)
      in case pytz_timezone rt name of
           Some tz \<Rightarrow> tz
         | None \<Rightarrow> UTC)"

definition get_current_datetime :: "runtime \<Rightarrow> string option \<Rightarrow> datetime" where
  "get_current_datetime rt tz_name = datetime_now (get_timezone rt tz_name) (clock rt)"

definition get_current_date :: "runtime \<Rightarrow> string option \<Rightarrow> date" where
  "get_current_date rt tz_name = dt_date (get_current_datetime rt tz_name)"

definition get_start_of_day :: "runtime \<Rightarrow> date option \<Rightarrow> string option \<Rightarrow> datetime" where
  "get_start_of_day rt target_date tz_name =
     (let d = (case target_date of None \<Rightarrow> get_current_date rt tz_name | Some t \<Rightarrow> t);
          tz = get_timezone rt tz_name;
          naive_dt = combine d min_time
      in localize tz naive_dt)"

definition get_end_of_day :: "runtime \<Rightarrow> date option \<Rightarrow> string option \<Rightarrow> datetime" where
  "get_end_of_day rt target_date tz_name =
     (let d = (case target_date of None \<Rightarrow> get_current_date rt tz_name | Some t \<Rightarrow> t);
          tz = get_timezone rt tz_name;
          naive_dt = combine d max_time
      in localize tz naive_dt)"

section \<open>The GitHub client as the aggregator sees it\<close>

text \<open>
  The client library's lists are lazy: iterating one yields items and may raise while
  fetching the next page or reading an item. A \<open>paginated\<close> list is the items it yields
  and the exception that then ends the iteration, if any (\<open>([], Some e)\<close> is a call that
  raises at once). The timestamps the client delivers are aware datetimes.
\<close>

type_synonym 'a paginated = "'a list \<times> exn option"

record gh_commit =
  c_sha :: string
  c_message :: string
  c_author_date :: datetime
  c_html_url :: string
  c_author_name :: string

record gh_pull =
  p_number :: int
  p_title :: string
  p_state :: string
  p_created_at :: datetime
  p_updated_at :: datetime
  p_html_url :: string
  p_user_login :: string

record gh_issue =
  i_number :: int
  i_title :: string
  i_state :: string
  i_created_at :: datetime
  i_updated_at :: datetime
  i_html_url :: string
  i_user_login :: string
  i_pull_request :: bool

text \<open>
  A repository: its name and what its three list calls return. \<open>get_commits\<close> takes the
  author and the window (\<open>since\<close>, \<open>until\<close>); \<open>get_pulls\<close> the state; \<open>get_issues\<close>
  the state and the creator.
\<close>

record repository =
  full_name :: string
  get_commits :: "string \<Rightarrow> datetime \<Rightarrow> datetime \<Rightarrow> gh_commit paginated"
  get_pulls :: "string \<Rightarrow> gh_pull paginated"
  get_issues :: "string \<Rightarrow> string \<Rightarrow> gh_issue paginated"

text \<open>
  The client built from one token: what \<open>client.get_user()\<close> gives, and on the user
  object what reading \<open>login\<close> gives and what \<open>get_repos\<close> yields.
\<close>

record gh_user =
  login :: "exn + string"
  get_repos :: "repository paginated"

record github =
  get_user :: "exn + gh_user"

text \<open>The plain dictionaries the aggregator builds (the timestamps kept as values).\<close>

record commit_data =
  cd_sha :: string
  cd_message :: string
  cd_repository :: string
  cd_date :: datetime
  cd_url :: string
  cd_author :: string

record item_data =
  it_number :: int
  it_title :: string
  it_repository :: string
  it_state :: string
  it_created_at :: datetime
  it_updated_at :: datetime
  it_url :: string
  it_author :: string

record activity =
  a_date :: date
  a_commits :: "commit_data list"
  a_commits_count :: int
  a_pull_requests :: "item_data list"
  a_prs_count :: int
  a_issues :: "item_data list"
  a_issues_count :: int
  a_repositories :: "string list"
  a_total_activity :: int

section \<open>GitHubService (app/services/github\_service.py)\<close>

text \<open>
  The property \<open>user\<close>: the cached result of \<open>client.get_user()\<close>; a
  \<open>GithubException\<close> is logged and raised again.
\<close>

definition user_prop :: "github \<Rightarrow> exn + gh_user" where
  "user_prop gh = get_user gh"

definition test_connection :: "github \<Rightarrow> exn + bool" where
  "test_connection gh =
     (case user_prop gh of
        Inl e \<Rightarrow> (if is_GithubException e then Inr False else Inl e)
      | Inr u \<Rightarrow>
          (case login u of
             Inl e \<Rightarrow> (if is_GithubException e then Inr False else Inl e)
           | Inr l \<Rightarrow> Inr True))"

text \<open>\<open>list(repos)\<close> runs the lazy list to its end inside the \<open>try\<close>.\<close>

definition get_user_repos :: "github \<Rightarrow> exn + repository list" where
  "get_user_repos gh =
     (case user_prop gh of
        Inl e \<Rightarrow> (if is_GithubException e then Inr [] else Inl e)
      | Inr u \<Rightarrow>
          (case get_repos u of
             (rs, None) \<Rightarrow> Inr rs
           | (rs, Some e) \<Rightarrow> (if is_GithubException e then Inr [] else Inl e)))"

text \<open>\<open>if username is None: username = self.user.login\<close>, outside any \<open>try\<close>.\<close>

definition resolve_username :: "github \<Rightarrow> string option \<Rightarrow> exn + string" where
  "resolve_username gh username =
     (case username of
        Some n \<Rightarrow> Inr n
      | None \<Rightarrow> (case user_prop gh of Inl e \<Rightarrow> Inl e | Inr u \<Rightarrow> login u))"

definition mk_commit_data :: "repository \<Rightarrow> gh_commit \<Rightarrow> commit_data" where
  "mk_commit_data repo commit =
     \<lparr>cd_sha = c_sha commit,
      cd_message = c_message commit,
      cd_repository = full_name repo,
      cd_date = c_author_date commit,
      cd_url = c_html_url commit,
      cd_author = c_author_name commit\<rparr>"

text \<open>
  The loop over the repositories in \<open>get_commits_for_date\<close>. Items are appended one by
  one while the lazy list is read, so those read before an exception stay in
  \<open>commits_data\<close>; a \<open>GithubException\<close> moves on to the next repository, any other
  exception leaves the function.
\<close>

fun commits_loop ::
  "string \<Rightarrow> datetime \<Rightarrow> datetime \<Rightarrow> repository list \<Rightarrow> commit_data list
   \<Rightarrow> exn + commit_data list" where
  "commits_loop username start_dt end_dt [] commits_data = Inr commits_data"
| "commits_loop username start_dt end_dt (repo # repos) commits_data =
     (case get_commits repo username start_dt end_dt of
        (commits, err) \<Rightarrow>
          (let commits_data' = commits_data @ map (mk_commit_data repo) commits
           in case err of
                None \<Rightarrow> commits_loop username start_dt end_dt repos commits_data'
              | Some e \<Rightarrow>
                  (if is_GithubException e
                   then commits_loop username start_dt end_dt repos commits_data'
                   else Inl e)))"

definition get_commits_for_date ::
  "runtime \<Rightarrow> github \<Rightarrow> date \<Rightarrow> string option \<Rightarrow> exn + commit_data list" where
  "get_commits_for_date rt gh target_date username =
     (case resolve_username gh username of
        Inl e \<Rightarrow> Inl e
      | Inr name \<Rightarrow>
          (let start_dt = get_start_of_day rt (Some target_date) None;
               end_dt = get_end_of_day rt (Some target_date) None
           in case get_user_repos gh of
                Inl e \<Rightarrow> Inl e
              | Inr repos \<Rightarrow> commits_loop name start_dt end_dt repos []))"

definition mk_pr_data :: "repository \<Rightarrow> gh_pull \<Rightarrow> item_data" where
  "mk_pr_data repo pr =
     \<lparr>it_number = p_number pr,
      it_title = p_title pr,
      it_repository = full_name repo,
      it_state = p_state pr,
      it_created_at = p_created_at pr,
      it_updated_at = p_updated_at pr,
      it_url = p_html_url pr,
      it_author = p_user_login pr\<rparr>"

text \<open>
  The inner \<open>for pr in prs\<close>: the filter, then the early stop. After a \<open>break\<close> the
  rest of the lazy list is never read, so an exception waiting there is never raised.
\<close>

fun scan_pulls ::
  "repository \<Rightarrow> date \<Rightarrow> datetime \<Rightarrow> string \<Rightarrow> gh_pull list \<Rightarrow> exn option
   \<Rightarrow> item_data list \<Rightarrow> item_data list \<times> exn option" where
  "scan_pulls repo target_date start_dt username [] err prs_data = (prs_data, err)"
| "scan_pulls repo target_date start_dt username (pr # prs) err prs_data =
     (let pr_created = (dt_date (p_created_at pr) = target_date);
          pr_updated = (dt_date (p_updated_at pr) = target_date);
          pr_by_user = (p_user_login pr = username);
          prs_data' = (if pr_by_user \<and> (pr_created \<or> pr_updated)
                       then prs_data @ [mk_pr_data repo pr] else prs_data)
      in if dt_less (p_updated_at pr) start_dt then (prs_data', None)
         else scan_pulls repo target_date start_dt username prs err prs_data')"

text \<open>\<open>for state in ["open", "closed"]\<close> inside one \<open>try\<close>.\<close>

definition pulls_of_repo ::
  "repository \<Rightarrow> date \<Rightarrow> datetime \<Rightarrow> string \<Rightarrow> item_data list
   \<Rightarrow> item_data list \<times> exn option" where
  "pulls_of_repo repo target_date start_dt username prs_data =
     (case get_pulls repo ''open'' of
        (prs, err) \<Rightarrow>
          (case scan_pulls repo target_date start_dt username prs err prs_data of
             (prs_data1, Some e) \<Rightarrow> (prs_data1, Some e)
           | (prs_data1, None) \<Rightarrow>
               (case get_pulls repo ''closed'' of
                  (prs2, err2) \<Rightarrow>
                    scan_pulls repo target_date start_dt username prs2 err2 prs_data1)))"

fun pulls_loop ::
  "date \<Rightarrow> datetime \<Rightarrow> string \<Rightarrow> repository list \<Rightarrow> item_data list
   \<Rightarrow> exn + item_data list" where
  "pulls_loop target_date start_dt username [] prs_data = Inr prs_data"
| "pulls_loop target_date start_dt username (repo # repos) prs_data =
     (case pulls_of_repo repo target_date start_dt username prs_data of
        (prs_data', None) \<Rightarrow> pulls_loop target_date start_dt username repos prs_data'
      | (prs_data', Some e) \<Rightarrow>
          (if is_GithubException e
           then pulls_loop target_date start_dt username repos prs_data'
           else Inl e))"

definition get_pull_requests_for_date ::
  "runtime \<Rightarrow> github \<Rightarrow> date \<Rightarrow> string option \<Rightarrow> exn + item_data list" where
  "get_pull_requests_for_date rt gh target_date username =
     (case resolve_username gh username of
        Inl e \<Rightarrow> Inl e
      | Inr name \<Rightarrow>
          (let start_dt = get_start_of_day rt (Some target_date) None;
               end_dt = get_end_of_day rt (Some target_date) None
           in case get_user_repos gh of
                Inl e \<Rightarrow> Inl e
              | Inr repos \<Rightarrow> pulls_loop target_date start_dt name repos []))"

definition mk_issue_data :: "repository \<Rightarrow> gh_issue \<Rightarrow> item_data" where
  "mk_issue_data repo issue =
     \<lparr>it_number = i_number issue,
      it_title = i_title issue,
      it_repository = full_name repo,
      it_state = i_state issue,
      it_created_at = i_created_at issue,
      it_updated_at = i_updated_at issue,
      it_url = i_html_url issue,
      it_author = i_user_login issue\<rparr>"

text \<open>
  The inner \<open>for issue in issues\<close>: a pull request reported as an issue is skipped with
  \<open>continue\<close>, which skips the early-stop test as well.
\<close>

fun scan_issues ::
  "repository \<Rightarrow> date \<Rightarrow> datetime \<Rightarrow> gh_issue list \<Rightarrow> exn option
   \<Rightarrow> item_data list \<Rightarrow> item_data list \<times> exn option" where
  "scan_issues repo target_date start_dt [] err issues_data = (issues_data, err)"
| "scan_issues repo target_date start_dt (issue # issues) err issues_data =
     (if i_pull_request issue
      then scan_issues repo target_date start_dt issues err issues_data
      else
        (let issue_created = (dt_date (i_created_at issue) = target_date);
             issue_updated = (dt_date (i_updated_at issue) = target_date);
             issues_data' = (if issue_created \<or> issue_updated
                             then issues_data @ [mk_issue_data repo issue] else issues_data)
         in if dt_less (i_updated_at issue) start_dt then (issues_data', None)
            else scan_issues repo target_date start_dt issues err issues_data'))"

definition issues_of_repo ::
  "repository \<Rightarrow> date \<Rightarrow> datetime \<Rightarrow> string \<Rightarrow> item_data list
   \<Rightarrow> item_data list \<times> exn option" where
  "issues_of_repo repo target_date start_dt username issues_data =
     (case get_issues repo ''open'' username of
        (issues, err) \<Rightarrow>
          (case scan_issues repo target_date start_dt issues err issues_data of
             (issues_data1, Some e) \<Rightarrow> (issues_data1, Some e)
           | (issues_data1, None) \<Rightarrow>
               (case get_issues repo ''closed'' username of
                  (issues2, err2) \<Rightarrow>
                    scan_issues repo target_date start_dt issues2 err2 issues_data1)))"

fun issues_loop ::
  "date \<Rightarrow> datetime \<Rightarrow> string \<Rightarrow> repository list \<Rightarrow> item_data list
   \<Rightarrow> exn + item_data list" where
  "issues_loop target_date start_dt username [] issues_data = Inr issues_data"
| "issues_loop target_date start_dt username (repo # repos) issues_data =
     (case issues_of_repo repo target_date start_dt username issues_data of
        (issues_data', None) \<Rightarrow> issues_loop target_date start_dt username repos issues_data'
      | (issues_data', Some e) \<Rightarrow>
          (if is_GithubException e
           then issues_loop target_date start_dt username repos issues_data'
           else Inl e))"

definition get_issues_for_date ::
  "runtime \<Rightarrow> github \<Rightarrow> date \<Rightarrow> string option \<Rightarrow> exn + item_data list" where
  "get_issues_for_date rt gh target_date username =
     (case resolve_username gh username of
        Inl e \<Rightarrow> Inl e
      | Inr name \<Rightarrow>
          (let start_dt = get_start_of_day rt (Some target_date) None;
               end_dt = get_end_of_day rt (Some target_date) None
           in case get_user_repos gh of
                Inl e \<Rightarrow> Inl e
              | Inr repos \<Rightarrow> issues_loop target_date start_dt name repos []))"

text \<open>
  \<open>sorted(list(repos))\<close> of the set of repository names: the names without duplicates,
  in the order of Python's string comparison (by code point, lexicographic).
\<close>

definition get_daily_activity ::
  "runtime \<Rightarrow> github \<Rightarrow> date \<Rightarrow> string option \<Rightarrow> exn + activity" where
  "get_daily_activity rt gh target_date username =
     (case get_commits_for_date rt gh target_date username of
        Inl e \<Rightarrow> Inl e
      | Inr commits \<Rightarrow>
     (case get_pull_requests_for_date rt gh target_date username of
        Inl e \<Rightarrow> Inl e
      | Inr prs \<Rightarrow>
     (case get_issues_for_date rt gh target_date username of
        Inl e \<Rightarrow> Inl e
      | Inr issues \<Rightarrow>
          (let repos = map cd_repository commits @ map it_repository prs
                       @ map it_repository issues
           in Inr \<lparr>a_date = target_date,
                    a_commits = commits,
                    a_commits_count = int (length commits),
                    a_pull_requests = prs,
                    a_prs_count = int (length prs),
                    a_issues = issues,
                    a_issues_count = int (length issues),
                    a_repositories = sort (remdups repos),
                    a_total_activity =
                      int (length commits) + int (length prs) + int (length issues)\<rparr>))))"

section \<open>The persisted tables and the session (app/models, app/database.py)\<close>

text \<open>
  The columns of \<open>users\<close> and \<open>daily_logs\<close>. The primary keys are written \<open>uid\<close> and
  \<open>lid\<close> (both are \<open>id\<close> in the source); stored timestamps are UTC instants in
  microseconds. The bookkeeping columns \<open>created_at\<close> and \<open>updated_at\<close> are left out: no
  modelled code reads them.
\<close>

record user =
  uid :: int
  email :: string
  github_username :: string
  github_token :: string
  is_active :: bool
  time_zone :: string

record daily_log =
  lid :: int
  user_id :: int
  log_date :: date
  checkin_sent_at :: "int option"
  user_response :: "string option"
  user_responded_at :: "int option"
  verification_completed_at :: "int option"
  commits_count :: int
  prs_count :: int
  issues_count :: int
  verification_passed :: "bool option"
  verification_details :: "activity option"
  summary_sent_at :: "int option"

text \<open>The database: the committed rows; \<open>log_seq\<close> is the autoincrement counter.\<close>

record db =
  users :: "user list"
  daily_logs :: "daily_log list"
  log_seq :: int

text \<open>
  The SQLAlchemy session, which is what the functions receive under the name \<open>db\<close>: the
  committed rows as it sees them, and whether a flush of it has failed with no rollback
  since. A failed flush expires every object the session holds and makes the session
  refuse all SQL until \<open>rollback()\<close>: a query, a commit, and the reload that reading a
  column of an expired object needs all raise \<open>PendingRollbackError\<close>. The \<open>User\<close>
  objects the functions work on are objects of the session: every caller gets them from
  a query of it.
\<close>

record session = db +
  needs_rollback :: bool

text \<open>\<open>SessionLocal()\<close>: a new session on the database, and the database behind a session.\<close>

definition get_db :: "db \<Rightarrow> session" where
  "get_db d =
     \<lparr>users = users d, daily_logs = daily_logs d, log_seq = log_seq d, needs_rollback = False\<rparr>"

definition database_of :: "session \<Rightarrow> db" where
  "database_of s = \<lparr>users = users s, daily_logs = daily_logs s, log_seq = log_seq s\<rparr>"

text \<open>
  Anything that needs the session to emit SQL, with the value \<open>v\<close> it gives when the
  session is in working order. Reading \<open>user.email\<close> in a log line is
  \<open>session_use rt s (email u)\<close>.
\<close>

definition session_use :: "runtime \<Rightarrow> session \<Rightarrow> 'a \<Rightarrow> exn + 'a" where
  "session_use rt s v =
     (if needs_rollback s then Inl (PendingRollbackError (pending_rollback_text rt))
      else Inr v)"

definition rollback :: "session \<Rightarrow> session" where
  "rollback s = s\<lparr>needs_rollback := False\<rparr>"

text \<open>
  \<open>user.timezone\<close>: the class \<open>User\<close> declares the column \<open>time_zone\<close> and no attribute
  named \<open>timezone\<close>, so reading \<open>timezone\<close> on an instance raises \<open>AttributeError\<close> with
  Python's text for it.
\<close>

definition user_timezone :: "user \<Rightarrow> exn + string" where
  "user_timezone u =
     Inl (AttributeError ([CHR 0x27] @ ''User'' @ [CHR 0x27] @ '' object has no attribute ''
                          @ [CHR 0x27] @ ''timezone'' @ [CHR 0x27]))"

text \<open>
  The rows the three queries select (\<open>.first()\<close>, \<open>.all()\<close>); running a query goes
  through \<open>session_use\<close>.
\<close>

definition get_by_email :: "'a db_scheme \<Rightarrow> string \<Rightarrow> user option" where
  "get_by_email d e = find (\<lambda>u. email u = e) (users d)"

definition get_active_users :: "'a db_scheme \<Rightarrow> user list" where
  "get_active_users d = filter (\<lambda>u. is_active u = True) (users d)"

definition get_by_date :: "'a db_scheme \<Rightarrow> int \<Rightarrow> date \<Rightarrow> daily_log option" where
  "get_by_date d u_id l_date =
     find (\<lambda>l. user_id l = u_id \<and> log_date l = l_date) (daily_logs d)"

text \<open>\<open>DailyLog(user_id=..., log_date=...)\<close> once flushed: the column defaults.\<close>

definition new_daily_log :: "int \<Rightarrow> date \<Rightarrow> daily_log" where
  "new_daily_log u_id l_date =
     \<lparr>lid = 0, user_id = u_id, log_date = l_date,
      checkin_sent_at = None, user_response = None, user_responded_at = None,
      verification_completed_at = None,
      commits_count = 0, prs_count = 0, issues_count = 0,
      verification_passed = None, verification_details = None,
      summary_sent_at = None\<rparr>"

text \<open>The database with the row \<open>l\<close> inserted under the next id.\<close>

definition add_row :: "'a db_scheme \<Rightarrow> daily_log \<Rightarrow> 'a db_scheme" where
  "add_row d l =
     d\<lparr>daily_logs := daily_logs d @ [l\<lparr>lid := log_seq d + 1\<rparr>], log_seq := log_seq d + 1\<rparr>"

text \<open>
  \<open>db.add(log); db.commit(); db.refresh(log)\<close>. The flush of the insert is refused with
  \<open>IntegrityError\<close> when a row with the same \<open>(user_id, log_date)\<close> is there
  (\<open>uix_user_log_date\<close>), and the session then awaits a rollback; otherwise the row
  gets the next id.
\<close>

definition insert_daily_log ::
  "runtime \<Rightarrow> session \<Rightarrow> daily_log \<Rightarrow> (exn + daily_log) \<times> session" where
  "insert_daily_log rt s l =
     (if needs_rollback s then (Inl (PendingRollbackError (pending_rollback_text rt)), s)
      else
        (case get_by_date s (user_id l) (log_date l) of
           Some other \<Rightarrow>
             (Inl (IntegrityError (integrity_text rt)), s\<lparr>needs_rollback := True\<rparr>)
         | None \<Rightarrow> (Inr (l\<lparr>lid := log_seq s + 1\<rparr>), add_row s l)))"

text \<open>
  What lies outside one call of the service: the GitHub client a token opens, the
  notification sender, and what the store does with this call's writes. With
  \<open>racing_create\<close>, another caller commits a fresh record for the same key after this
  call has looked for it and before this call inserts. A commit of field updates either
  goes through, or raises outside its flush (the session stays in working order), or has
  its flush refused by the store (the session then awaits a rollback).
  \<open>commit_outcome\<close> is for the commit of a verification run or of a reply,
  \<open>summary_commit_outcome\<close> for the commit of \<open>summary_sent_at\<close>.
\<close>

datatype commit_outcome = Committed | RaisedOutsideFlush exn | FlushRefused exn

record verification_result =
  r_success :: bool
  r_passed :: bool
  r_error :: "string option"
  r_date :: "date option"
  r_commits_count :: int
  r_prs_count :: int
  r_issues_count :: int
  r_repositories :: "string list option"
  r_total_activity :: int
  r_user_response :: "string option"
  r_details :: "activity option"

record env =
  github_for :: "string \<Rightarrow> github"
  send_verification_summary :: "string \<Rightarrow> string \<Rightarrow> date \<Rightarrow> verification_result \<Rightarrow> exn + bool"
  racing_create :: bool
  commit_outcome :: commit_outcome
  summary_commit_outcome :: commit_outcome

definition other_caller_creates :: "'a db_scheme \<Rightarrow> int \<Rightarrow> date \<Rightarrow> 'a db_scheme" where
  "other_caller_creates d u_id l_date =
     (case get_by_date d u_id l_date of
        Some l \<Rightarrow> d
      | None \<Rightarrow> add_row d (new_daily_log u_id l_date))"

definition get_or_create ::
  "runtime \<Rightarrow> env \<Rightarrow> session \<Rightarrow> int \<Rightarrow> date \<Rightarrow> (exn + daily_log) \<times> session" where
  "get_or_create rt ev s u_id l_date =
     (case session_use rt s (get_by_date s u_id l_date) of
        Inl e \<Rightarrow> (Inl e, s)
      | Inr (Some log) \<Rightarrow> (Inr log, s)
      | Inr None \<Rightarrow>
          (let s1 = (if racing_create ev then other_caller_creates s u_id l_date else s)
           in insert_daily_log rt s1 (new_daily_log u_id l_date)))"

text \<open>
  \<open>db.commit()\<close> after attribute assignments on a loaded record, with what the store
  does with it: when it goes through, the row with that primary key is rewritten.
  \<open>None\<close> is a commit that returned.
\<close>

definition commit_daily_log ::
  "runtime \<Rightarrow> commit_outcome \<Rightarrow> session \<Rightarrow> daily_log \<Rightarrow> exn option \<times> session" where
  "commit_daily_log rt outcome s l =
     (if needs_rollback s then (Some (PendingRollbackError (pending_rollback_text rt)), s)
      else
        (case outcome of
           Committed \<Rightarrow>
             (None, s\<lparr>daily_logs := map (\<lambda>r. if lid r = lid l then l else r) (daily_logs s)\<rparr>)
         | RaisedOutsideFlush e \<Rightarrow> (Some e, s)
         | FlushRefused e \<Rightarrow> (Some e, s\<lparr>needs_rollback := True\<rparr>)))"

section \<open>VerificationService (app/services/verification\_service.py)\<close>

definition create_error_result :: "string \<Rightarrow> verification_result" where
  "create_error_result error_message =
     \<lparr>r_success = False, r_passed = False, r_error = Some error_message, r_date = None,
      r_commits_count = 0, r_prs_count = 0, r_issues_count = 0, r_repositories = None,
      r_total_activity = 0, r_user_response = None, r_details = None\<rparr>"

text \<open>\<open>if target_date is None: target_date = get_current_date(user.timezone)\<close>.\<close>

definition default_target_date :: "runtime \<Rightarrow> user \<Rightarrow> date option \<Rightarrow> exn + date" where
  "default_target_date rt u target_date =
     (case target_date of
        Some t \<Rightarrow> Inr t
      | None \<Rightarrow>
          (case user_timezone u of
             Inl e \<Rightarrow> Inl e
           | Inr tz \<Rightarrow> Inr (get_current_date rt (Some tz))))"

text \<open>
  The body of the \<open>try\<close> in \<open>verify_user_day\<close> (lines 66 to 117): \<open>Inl\<close> is an
  exception on its way to the \<open>except\<close> clause.
\<close>

definition verify_user_day_try ::
  "runtime \<Rightarrow> env \<Rightarrow> session \<Rightarrow> user \<Rightarrow> date \<Rightarrow> int
   \<Rightarrow> (exn + verification_result) \<times> session" where
  "verify_user_day_try rt ev s u t_date min_commits =
     (case get_or_create rt ev s (uid u) t_date of
        (Inl e, s1) \<Rightarrow> (Inl e, s1)
      | (Inr daily_log, s1) \<Rightarrow>
     (let github_service = github_for ev (github_token u)
      in case test_connection github_service of
        Inl e \<Rightarrow> (Inl e, s1)
      | Inr False \<Rightarrow>
          (Inr (create_error_result ''GitHub connection failed. Please check your token.''), s1)
      | Inr True \<Rightarrow>
     (case get_daily_activity rt github_service t_date (Some (github_username u)) of
        Inl e \<Rightarrow> (Inl e, s1)
      | Inr activity \<Rightarrow>
     (let passed = (a_total_activity activity \<ge> min_commits);
          daily_log' = daily_log
            \<lparr>commits_count := a_commits_count activity,
             prs_count := a_prs_count activity,
             issues_count := a_issues_count activity,
             verification_details := Some activity,
             verification_completed_at := Some (clock rt),
             verification_passed := Some passed\<rparr>
      in case commit_daily_log rt (commit_outcome ev) s1 daily_log' of
        (Some e, s2) \<Rightarrow> (Inl e, s2)
      | (None, s2) \<Rightarrow>
          (Inr \<lparr>r_success = True, r_passed = passed, r_error = None,
                r_date = Some t_date,
                r_commits_count = a_commits_count activity,
                r_prs_count = a_prs_count activity,
                r_issues_count = a_issues_count activity,
                r_repositories = Some (a_repositories activity),
                r_total_activity = a_total_activity activity,
                r_user_response = user_response daily_log',
                r_details = Some activity\<rparr>, s2)))))"

text \<open>
  \<open>verify_user_day\<close>. The defaulting of the date and the first log line, which reads
  \<open>user.email\<close>, stand before the \<open>try\<close>: their exceptions leave the function. The
  \<open>except\<close> clause first formats its log line, reading \<open>user.email\<close>, then rolls the
  session back, then returns the error result; after a failed flush that read raises,
  and the exception leaves the function with the session not rolled back.
\<close>

definition verify_user_day ::
  "runtime \<Rightarrow> env \<Rightarrow> session \<Rightarrow> user \<Rightarrow> date option \<Rightarrow> int
   \<Rightarrow> (exn + verification_result) \<times> session" where
  "verify_user_day rt ev s u target_date min_commits =
     (case default_target_date rt u target_date of
        Inl e \<Rightarrow> (Inl e, s)
      | Inr t_date \<Rightarrow>
     (case session_use rt s (email u) of
        Inl e \<Rightarrow> (Inl e, s)
      | Inr address \<Rightarrow>
     (case verify_user_day_try rt ev s u t_date min_commits of
        (Inr result, s') \<Rightarrow> (Inr result, s')
      | (Inl e, s') \<Rightarrow>
          (case session_use rt s' (email u) of
             Inl e' \<Rightarrow> (Inl e', s')
           | Inr address' \<Rightarrow> (Inr (create_error_result (str_exn e)), rollback s')))))"

text \<open>
  The body of the \<open>try\<close> in \<open>verify_and_notify\<close> (lines 153 to 172): the summary email,
  and on success the commit of \<open>summary_sent_at\<close>.
\<close>

definition send_summary_try ::
  "runtime \<Rightarrow> env \<Rightarrow> session \<Rightarrow> user \<Rightarrow> date \<Rightarrow> verification_result
   \<Rightarrow> (exn + bool) \<times> session" where
  "send_summary_try rt ev s u t_date result =
     (case session_use rt s (email u) of
        Inl e \<Rightarrow> (Inl e, s)
      | Inr to_email \<Rightarrow>
     (case send_verification_summary ev to_email (github_username u) t_date result of
        Inl e \<Rightarrow> (Inl e, s)
      | Inr email_sent \<Rightarrow>
          (if email_sent
           then
             (case session_use rt s (get_by_date s (uid u) t_date) of
                Inl e \<Rightarrow> (Inl e, s)
              | Inr None \<Rightarrow> (Inr True, s)
              | Inr (Some daily_log) \<Rightarrow>
                  (case commit_daily_log rt (summary_commit_outcome ev) s
                          (daily_log\<lparr>summary_sent_at := Some (clock rt)\<rparr>) of
                     (Some e, s') \<Rightarrow> (Inl e, s')
                   | (None, s') \<Rightarrow> (Inr True, s')))
           else (Inr False, s))))"

text \<open>
  \<open>verify_and_notify\<close>: the verification, with the default threshold, is called outside
  any \<open>try\<close>. Both log lines that report a failure read \<open>user.email\<close>; the \<open>except\<close>
  clause returns \<open>False\<close> after its log line and does not roll back.
\<close>

definition verify_and_notify ::
  "runtime \<Rightarrow> env \<Rightarrow> session \<Rightarrow> user \<Rightarrow> date option \<Rightarrow> (exn + bool) \<times> session" where
  "verify_and_notify rt ev s u target_date =
     (case default_target_date rt u target_date of
        Inl e \<Rightarrow> (Inl e, s)
      | Inr t_date \<Rightarrow>
     (case verify_user_day rt ev s u (Some t_date) 1 of
        (Inl e, s1) \<Rightarrow> (Inl e, s1)
      | (Inr result, s1) \<Rightarrow>
          (if \<not> r_success result
           then
             (case session_use rt s1 (email u) of
                Inl e \<Rightarrow> (Inl e, s1)
              | Inr address \<Rightarrow> (Inr False, s1))
           else
             (case send_summary_try rt ev s1 u t_date result of
                (Inr sent, s2) \<Rightarrow> (Inr sent, s2)
              | (Inl e, s2) \<Rightarrow>
                  (case session_use rt s2 (email u) of
                     Inl e' \<Rightarrow> (Inl e', s2)
                   | Inr address \<Rightarrow> (Inr False, s2))))))"

record user_result =
  ur_user_email :: string
  ur_success :: bool
  ur_error :: "string option"

record batch_results =
  b_date :: date
  b_total_users :: int
  b_successful :: int
  b_failed :: int
  b_passed :: int
  b_not_passed :: int
  b_user_results :: "user_result list"

text \<open>
  The body of the \<open>try\<close> inside the loop of \<open>verify_all_users\<close> (lines 211 to 228),
  for one user: the exception it ends with, if any, together with the counters as they
  stand at that moment. Appending the user's entry reads \<open>user.email\<close>.
\<close>

definition process_user ::
  "runtime \<Rightarrow> env \<Rightarrow> date \<Rightarrow> user \<Rightarrow> batch_results \<Rightarrow> session
   \<Rightarrow> exn option \<times> batch_results \<times> session" where
  "process_user rt ev t_date u results s =
     (case verify_and_notify rt ev s u (Some t_date) of
        (Inl e, s1) \<Rightarrow> (Some e, results, s1)
      | (Inr success, s1) \<Rightarrow>
     (case (if success
            then
              (let r = results\<lparr>b_successful := b_successful results + 1\<rparr>
               in case session_use rt s1 (get_by_date s1 (uid u) t_date) of
                    Inl e \<Rightarrow> (Some e, r)
                  | Inr (Some daily_log) \<Rightarrow>
                      (if verification_passed daily_log = Some True
                       then (None, r\<lparr>b_passed := b_passed r + 1\<rparr>)
                       else (None, r\<lparr>b_not_passed := b_not_passed r + 1\<rparr>))
                  | Inr None \<Rightarrow> (None, r\<lparr>b_not_passed := b_not_passed r + 1\<rparr>))
            else (None, results\<lparr>b_failed := b_failed results + 1\<rparr>)) of
        (Some e, results1) \<Rightarrow> (Some e, results1, s1)
      | (None, results1) \<Rightarrow>
          (case session_use rt s1 (email u) of
             Inl e \<Rightarrow> (Some e, results1, s1)
           | Inr address \<Rightarrow>
               (None,
                results1\<lparr>b_user_results := b_user_results results1 @
                   [\<lparr>ur_user_email = address, ur_success = success, ur_error = None\<rparr>]\<rparr>,
                s1))))"

text \<open>
  The loop \<open>for user in users\<close>. Its \<open>except\<close> clause formats a log line that reads
  \<open>user.email\<close> before it counts the failure, and never rolls back: when the session
  awaits a rollback, that read raises and the exception leaves \<open>verify_all_users\<close>.
  Each user's run meets its own surroundings \<open>env_for u\<close>.
\<close>

fun verify_users_loop ::
  "runtime \<Rightarrow> (user \<Rightarrow> env) \<Rightarrow> date \<Rightarrow> user list \<Rightarrow> batch_results \<Rightarrow> session
   \<Rightarrow> (exn + batch_results) \<times> session" where
  "verify_users_loop rt env_for t_date [] results s = (Inr results, s)"
| "verify_users_loop rt env_for t_date (u # us) results s =
     (case process_user rt (env_for u) t_date u results s of
        (None, results1, s1) \<Rightarrow> verify_users_loop rt env_for t_date us results1 s1
      | (Some e, results1, s1) \<Rightarrow>
          (case session_use rt s1 (email u) of
             Inl e' \<Rightarrow> (Inl e', s1)
           | Inr address \<Rightarrow>
               (let results2 = results1\<lparr>b_failed := b_failed results1 + 1\<rparr>;
                    results3 = results2\<lparr>b_user_results := b_user_results results2 @
                       [\<lparr>ur_user_email = address, ur_success = False,
                         ur_error = Some (str_exn e)\<rparr>]\<rparr>
                in verify_users_loop rt env_for t_date us results3 s1)))"

definition verify_all_users ::
  "runtime \<Rightarrow> (user \<Rightarrow> env) \<Rightarrow> session \<Rightarrow> date option
   \<Rightarrow> (exn + batch_results) \<times> session" where
  "verify_all_users rt env_for s target_date =
     (let t_date = (case target_date of None \<Rightarrow> get_current_date rt None | Some t \<Rightarrow> t)
      in case session_use rt s (get_active_users s) of
           Inl e \<Rightarrow> (Inl e, s)
         | Inr us \<Rightarrow>
             (let results = \<lparr>b_date = t_date, b_total_users = int (length us),
                             b_successful = 0, b_failed = 0, b_passed = 0, b_not_passed = 0,
                             b_user_results = []\<rparr>
              in verify_users_loop rt env_for t_date us results s))"

section \<open>Reply ingestion (app/api/replies.py)\<close>

text \<open>
  The parsed JSON body, in the shape the inbound-mail webhook sends: an object whose
  \<open>from\<close> entry, when present, is an object, whose \<open>to\<close> entry, when present, is a
  list of objects, and whose \<open>text\<close> and \<open>html\<close> entries, when present, are strings.
  \<open>pl_from_email\<close> is \<open>payload.get("from", {}).get("email")\<close>; \<open>pl_to\<close> is \<open>None\<close>
  when the key \<open>to\<close> is absent, else the \<open>email\<close> entry of each element of the list;
  \<open>pl_text\<close> and \<open>pl_html\<close> are \<open>None\<close> when the key is absent.
\<close>

record payload =
  pl_from_email :: "string option"
  pl_to :: "string option list option"
  pl_subject :: "string option"
  pl_text :: "string option"
  pl_html :: "string option"

datatype http_exception = HTTPException int string

record reply_response =
  rr_status :: string
  rr_message :: string
  rr_user_email :: string
  rr_log_date :: date
  rr_response_length :: int

text \<open>
  \<open>str.strip()\<close>. A character of the model is a code point below 256; these are the
  ones among them that Python counts as whitespace.
\<close>

definition is_space :: "char \<Rightarrow> bool" where
  "is_space c = (c \<in> {CHR '' '', CHR 0x09, CHR 0x0A, CHR 0x0B, CHR 0x0C, CHR 0x0D,
                       CHR 0x1C, CHR 0x1D, CHR 0x1E, CHR 0x1F, CHR 0x85, CHR 0xA0})"

definition strip :: "string \<Rightarrow> string" where
  "strip s = rev (dropWhile is_space (rev (dropWhile is_space s)))"

text \<open>\<open>except Exception as e: raise HTTPException(status_code=500, ...)\<close>.\<close>

definition internal_error :: "exn \<Rightarrow> http_exception" where
  "internal_error e = HTTPException 500 (''Internal server error: '' @ str_exn e)"

text \<open>\<open>payload.get("to", [{}])[0].get("email")\<close>.\<close>

definition first_to_email :: "payload \<Rightarrow> exn + string option" where
  "first_to_email pl =
     (case pl_to pl of
        None \<Rightarrow> Inr None
      | Some [] \<Rightarrow> Inl (IndexError ''list index out of range'')
      | Some (t # ts) \<Rightarrow> Inr t)"

text \<open>
  The endpoint on the session it is handed, which the dependency \<open>get_db\<close> opens anew
  for every request.
\<close>

definition handle_email_reply_on ::
  "runtime \<Rightarrow> env \<Rightarrow> session \<Rightarrow> payload \<Rightarrow> (http_exception + reply_response) \<times> session" where
  "handle_email_reply_on rt ev s pl =
     (let from_email = pl_from_email pl
      in case first_to_email pl of
        Inl e \<Rightarrow> (Inl (internal_error e), s)
      | Inr to_email \<Rightarrow>
     (let text_content = (case pl_text pl of None \<Rightarrow> '''' | Some t \<Rightarrow> t);
          html_content = (case pl_html pl of None \<Rightarrow> '''' | Some h \<Rightarrow> h);
          response = (if text_content \<noteq> '''' then text_content else html_content)
      in case from_email of
        None \<Rightarrow>
          (Inl (HTTPException 400 ''Invalid email data: missing from_email or content''), s)
      | Some sender \<Rightarrow>
     (if sender = '''' \<or> response = ''''
      then (Inl (HTTPException 400 ''Invalid email data: missing from_email or content''), s)
      else
     (case session_use rt s (get_by_email s sender) of
        Inl e \<Rightarrow> (Inl (internal_error e), s)
      | Inr None \<Rightarrow> (Inl (HTTPException 404 (''User not found: '' @ sender)), s)
      | Inr (Some u) \<Rightarrow>
     (case user_timezone u of
        Inl e \<Rightarrow> (Inl (internal_error e), s)
      | Inr tz \<Rightarrow>
     (let today = get_current_date rt (Some tz)
      in case get_or_create rt ev s (uid u) today of
        (Inl e, s1) \<Rightarrow> (Inl (internal_error e), s1)
      | (Inr daily_log, s1) \<Rightarrow>
     (let daily_log' = daily_log
            \<lparr>user_response := Some (strip response),
             user_responded_at := Some (clock rt)\<rparr>
      in case commit_daily_log rt (commit_outcome ev) s1 daily_log' of
        (Some e, s2) \<Rightarrow> (Inl (internal_error e), s2)
      | (None, s2) \<Rightarrow>
          (Inr \<lparr>rr_status = ''success'',
                rr_message = ''Email reply processed successfully'',
                rr_user_email = email u,
                rr_log_date = today,
                rr_response_length = int (length response)\<rparr>, s2))))))))"

text \<open>A request: a new session on the database, the endpoint, the database afterwards.\<close>

definition handle_email_reply ::
  "runtime \<Rightarrow> env \<Rightarrow> db \<Rightarrow> payload \<Rightarrow> (http_exception + reply_response) \<times> db" where
  "handle_email_reply rt ev d pl =
     (case handle_email_reply_on rt ev (get_db d) pl of
        (answer, s) \<Rightarrow> (answer, database_of s))"

section \<open>Notions used to state the properties\<close>

text \<open>
  The record as a successful run of \<open>verify_user_day\<close> commits it, and the result that
  run returns: the same field assignments as in the function, given names.
\<close>

definition verified_log :: "runtime \<Rightarrow> daily_log \<Rightarrow> activity \<Rightarrow> int \<Rightarrow> daily_log" where
  "verified_log rt l a m = l
     \<lparr>commits_count := a_commits_count a,
      prs_count := a_prs_count a,
      issues_count := a_issues_count a,
      verification_details := Some a,
      verification_completed_at := Some (clock rt),
      verification_passed := Some (a_total_activity a \<ge> m)\<rparr>"

definition success_result :: "date \<Rightarrow> daily_log \<Rightarrow> activity \<Rightarrow> int \<Rightarrow> verification_result" where
  "success_result t l a m =
     \<lparr>r_success = True, r_passed = (a_total_activity a \<ge> m), r_error = None,
      r_date = Some t,
      r_commits_count = a_commits_count a,
      r_prs_count = a_prs_count a,
      r_issues_count = a_issues_count a,
      r_repositories = Some (a_repositories a),
      r_total_activity = a_total_activity a,
      r_user_response = user_response l,
      r_details = Some a\<rparr>"


text \<open>The store with one more record, empty, for the key \<open>(k, t)\<close>.\<close>

definition with_fresh_log :: "'a db_scheme \<Rightarrow> int \<Rightarrow> date \<Rightarrow> 'a db_scheme" where
  "with_fresh_log d k t =
     d\<lparr>daily_logs := daily_logs d @ [(new_daily_log k t)\<lparr>lid := log_seq d + 1\<rparr>],
       log_seq := log_seq d + 1\<rparr>"

text \<open>A commit whose flush the store refuses.\<close>

fun flush_refused :: "commit_outcome \<Rightarrow> bool" where
  "flush_refused (FlushRefused e) = True"
| "flush_refused outcome = False"

text \<open>A fetch that ends without an exception or with a \<open>GithubException\<close>.\<close>

fun github_only :: "exn option \<Rightarrow> bool" where
  "github_only None = True"
| "github_only (Some e) = is_GithubException e"




text \<open>The body the reply handler works with: the plain text when present, else the HTML.\<close>

definition reply_body :: "payload \<Rightarrow> string" where
  "reply_body pl =
     (let text_content = (case pl_text pl of None \<Rightarrow> '''' | Some t \<Rightarrow> t);
          html_content = (case pl_html pl of None \<Rightarrow> '''' | Some h \<Rightarrow> h)
      in if text_content \<noteq> '''' then text_content else html_content)"

section \<open>A concrete world for the examples\<close>

text \<open>
  Three zones with fixed offsets (New York in January, Douala, UTC), the server set to
  New York, the day 2024-01-15 (ordinal 738900, a Monday), one user living in Douala, and
  GitHub repositories whose \<open>get_commits\<close> returns the commits dated inside the window
  it is asked for. The texts of the two store exceptions are abridged: the full ones
  depend on the database engine and quote the statement that failed.
\<close>

definition hour_us :: int where
  "hour_us = 3600000000"

definition fixed_zone :: "int \<Rightarrow> tzinfo" where
  "fixed_zone off = \<lparr>offset_at_wall = (\<lambda>w. off), offset_at_utc = (\<lambda>t. off)\<rparr>"

definition ex_pytz :: "string \<Rightarrow> tzinfo option" where
  "ex_pytz name =
     (if name = ''America/New_York'' then Some (fixed_zone (- 5 * hour_us))
      else if name = ''Africa/Douala'' then Some (fixed_zone hour_us)
      else if name = ''UTC'' then Some UTC
      else None)"

definition ex_day :: date where
  "ex_day = 738900"

definition ex_rt :: runtime where
  "ex_rt = \<lparr>cfg = \<lparr>timezone = ''America/New_York''\<rparr>, pytz_timezone = ex_pytz,
            clock = combine ex_day (23 * hour_us),
            integrity_text = ''UNIQUE constraint failed: daily_logs.user_id, daily_logs.log_date'',
            pending_rollback_text =
              ''This Session'' @ [CHR 0x27] @ ''s transaction has been rolled back due to a '' @
              ''previous exception during flush.''\<rparr>"

definition ex_user :: user where
  "ex_user = \<lparr>uid = 1, email = ''test@example.com'', github_username = ''testuser'',
              github_token = ''fake_token_12345'', is_active = True,
              time_zone = ''Africa/Douala''\<rparr>"

definition ex_commit :: "string \<Rightarrow> int \<Rightarrow> gh_commit" where
  "ex_commit sha w = \<lparr>c_sha = sha, c_message = ''Test commit'',
                  c_author_date = \<lparr>wall = w, utcoffset = 0\<rparr>,
                  c_html_url = ''https://github.com/testuser/repo1/commit/'' @ sha,
                  c_author_name = ''testuser''\<rparr>"

definition ex_repo :: "string \<Rightarrow> gh_commit list \<Rightarrow> exn option \<Rightarrow> repository" where
  "ex_repo name cs err =
     \<lparr>full_name = name,
      get_commits = (\<lambda>author since until.
         (filter (\<lambda>c. instant since \<le> instant (c_author_date c)
                       \<and> instant (c_author_date c) \<le> instant until) cs, err)),
      get_pulls = (\<lambda>state. ([], None)),
      get_issues = (\<lambda>state creator. ([], None))\<rparr>"

definition ex_github :: "repository list \<Rightarrow> github" where
  "ex_github repos = \<lparr>get_user = Inr \<lparr>login = Inr ''testuser'', get_repos = (repos, None)\<rparr>\<rparr>"

definition ex_env :: "repository list \<Rightarrow> env" where
  "ex_env repos =
     \<lparr>github_for = (\<lambda>token. ex_github repos),
      send_verification_summary = (\<lambda>to_email name t_date result. Inr True),
      racing_create = False,
      commit_outcome = Committed,
      summary_commit_outcome = Committed\<rparr>"

definition ex_db :: db where
  "ex_db = \<lparr>users = [ex_user], daily_logs = [], log_seq = 0\<rparr>"

definition ex_noon :: int where
  "ex_noon = combine ex_day (12 * hour_us)"

text \<open>GitHub with no activity, with one commit at noon UTC, with two commits.\<close>

definition ex_env_none :: env where
  "ex_env_none = ex_env [ex_repo ''testuser/repo1'' [] None]"

definition ex_env_one :: env where
  "ex_env_one = ex_env [ex_repo ''testuser/repo1'' [ex_commit ''abc123'' ex_noon] None]"

definition ex_env_two :: env where
  "ex_env_two = ex_env [ex_repo ''testuser/repo1''
     [ex_commit ''abc123'' ex_noon, ex_commit ''def456'' (ex_noon + hour_us)] None]"

text \<open>GitHub refusing the token: reading \<open>login\<close> raises \<open>GithubException\<close>.\<close>

definition ex_env_down :: env where
  "ex_env_down =
     \<lparr>github_for = (\<lambda>token. \<lparr>get_user = Inr \<lparr>login = Inl (GithubException ''401 Bad credentials''),
                                              get_repos = ([], None)\<rparr>\<rparr>),
      send_verification_summary = (\<lambda>to_email name t_date result. Inr True),
      racing_create = False,
      commit_outcome = Committed,
      summary_commit_outcome = Committed\<rparr>"

text \<open>
  The commit of the run's field updates raising outside its flush; and another caller
  creating the record between this call's read and its insert.
\<close>

definition ex_env_commit_fails :: env where
  "ex_env_commit_fails =
     ex_env_one\<lparr>commit_outcome :=
       RaisedOutsideFlush (OtherException ''server closed the connection'')\<rparr>"

definition ex_env_racing :: env where
  "ex_env_racing = ex_env_one\<lparr>racing_create := True\<rparr>"

text \<open>
  Two more users; in the batch, the first user's record is created by another caller
  while the first user's run is about to insert it.
\<close>

definition ex_user2 :: user where
  "ex_user2 = \<lparr>uid = 2, email = ''second@example.com'', github_username = ''seconduser'',
               github_token = ''token2'', is_active = True, time_zone = ''UTC''\<rparr>"

definition ex_user3 :: user where
  "ex_user3 = \<lparr>uid = 3, email = ''third@example.com'', github_username = ''thirduser'',
               github_token = ''token3'', is_active = True, time_zone = ''UTC''\<rparr>"

definition ex_db3 :: db where
  "ex_db3 = \<lparr>users = [ex_user, ex_user2, ex_user3], daily_logs = [], log_seq = 0\<rparr>"

definition ex_env_for :: "user \<Rightarrow> env" where
  "ex_env_for u = (if uid u = 1 then ex_env_racing else ex_env_one)"

text \<open>
  Repository lists for the aggregator: one whose access is revoked (a \<open>GithubException\<close>
  at once), one that is fine, one that yields a commit and then hits the rate limit; and
  a list whose first repository times out below the client library.
\<close>

definition ex_repos_mixed :: "repository list" where
  "ex_repos_mixed =
     [ex_repo ''testuser/revoked'' [] (Some (GithubException ''403 Forbidden'')),
      ex_repo ''testuser/repo1'' [ex_commit ''abc123'' ex_noon] None,
      ex_repo ''testuser/flaky'' [ex_commit ''def456'' ex_noon]
        (Some (GithubException ''403 rate limit exceeded''))]"

definition ex_repos_timeout :: "repository list" where
  "ex_repos_timeout =
     [ex_repo ''testuser/slow'' [] (Some (OtherException ''Connection timed out'')),
      ex_repo ''testuser/repo1'' [ex_commit ''abc123'' ex_noon] None]"

text \<open>
  A commit made at 00:30 on 2024-01-15 by the clock of Douala, which is 23:30 UTC on the
  14th and 18:30 on the 14th in New York.
\<close>

definition ex_early :: int where
  "ex_early = combine ex_day 0 - 1800000000"

definition ex_repos_early :: "repository list" where
  "ex_repos_early = [ex_repo ''testuser/repo1'' [ex_commit ''abc123'' ex_early] None]"

text \<open>
  Open pull requests of the user, created and last updated at the same moment, which the
  client gives in UTC; and a repository that has only these.
\<close>

definition ex_pull :: "int \<Rightarrow> int \<Rightarrow> gh_pull" where
  "ex_pull n w =
     \<lparr>p_number = n, p_title = ''Fix login'', p_state = ''open'',
      p_created_at = \<lparr>wall = w, utcoffset = 0\<rparr>,
      p_updated_at = \<lparr>wall = w, utcoffset = 0\<rparr>,
      p_html_url = ''https://github.com/testuser/repo1/pull/1'',
      p_user_login = ''testuser''\<rparr>"

definition ex_repo_pulls :: "gh_pull list \<Rightarrow> repository" where
  "ex_repo_pulls prs =
     \<lparr>full_name = ''testuser/repo1'',
      get_commits = (\<lambda>author since until. ([], None)),
      get_pulls = (\<lambda>state. if state = ''open'' then (prs, None) else ([], None)),
      get_issues = (\<lambda>state creator. ([], None))\<rparr>"

text \<open>
  Three more moments, by the clock of UTC: 03:00 on 2024-01-15, which is 22:00 on the 14th
  in New York; 23:30 on 2024-01-15, which is 00:30 on the 16th in Douala; and 02:00 on
  2024-01-16, which is 21:00 on the 15th in New York.
\<close>

definition ex_night :: int where
  "ex_night = combine ex_day (3 * hour_us)"

definition ex_evening :: int where
  "ex_evening = combine ex_day (23 * hour_us) + 1800000000"

definition ex_next_day :: int where
  "ex_next_day = combine (ex_day + 1) (2 * hour_us)"

text \<open>
  A store whose only user is deactivated; and inbound replies from a given sender with a
  given text, addressed to the agent or with an empty list of addressees.
\<close>

definition ex_user_inactive :: user where
  "ex_user_inactive =
     \<lparr>uid = 7, email = ''gone@example.com'', github_username = ''goneuser'',
      github_token = ''token7'', is_active = False, time_zone = ''UTC''\<rparr>"

definition ex_db_inactive :: db where
  "ex_db_inactive = \<lparr>users = [ex_user_inactive], daily_logs = [], log_seq = 0\<rparr>"

definition ex_payload :: "string \<Rightarrow> string \<Rightarrow> payload" where
  "ex_payload sender body =
     \<lparr>pl_from_email = Some sender,
      pl_to = Some [Some ''agent@example.com''],
      pl_subject = Some ''Re: Daily Check-in'',
      pl_text = Some body,
      pl_html = None\<rparr>"

definition ex_payload_to_nobody :: "string \<Rightarrow> string \<Rightarrow> payload" where
  "ex_payload_to_nobody sender body = (ex_payload sender body)\<lparr>pl_to := Some []\<rparr>"

section \<open>Definitions unfolded when a concrete run is evaluated\<close>

lemmas time_defs = get_start_of_day_def get_end_of_day_def get_timezone_def localize_def
  combine_def min_time_def max_time_def day_us_def hour_us_def instant_def dt_less_def
  dt_date_def get_current_date_def get_current_datetime_def datetime_now_def UTC_def

lemmas github_defs = get_daily_activity_def get_commits_for_date_def
  get_pull_requests_for_date_def get_issues_for_date_def resolve_username_def
  get_user_repos_def user_prop_def test_connection_def pulls_of_repo_def issues_of_repo_def
  mk_commit_data_def mk_pr_data_def mk_issue_data_def

lemmas store_defs = get_by_email_def get_active_users_def get_by_date_def new_daily_log_def
  add_row_def insert_daily_log_def other_caller_creates_def get_or_create_def
  commit_daily_log_def user_timezone_def get_db_def database_of_def session_use_def
  rollback_def with_fresh_log_def

lemmas service_defs = verify_user_day_def verify_user_day_try_def verify_and_notify_def
  send_summary_try_def default_target_date_def create_error_result_def process_user_def
  verify_all_users_def

lemmas reply_defs = handle_email_reply_def handle_email_reply_on_def first_to_email_def
  internal_error_def reply_body_def

lemmas ex_defs = fixed_zone_def ex_pytz_def ex_day_def ex_rt_def ex_user_def ex_commit_def
  ex_repo_def ex_github_def ex_env_def ex_db_def ex_noon_def ex_env_none_def ex_env_one_def
  ex_env_two_def ex_env_down_def ex_env_commit_fails_def ex_env_racing_def ex_user2_def
  ex_user3_def ex_db3_def ex_env_for_def ex_repos_mixed_def ex_repos_timeout_def
  ex_early_def ex_night_def ex_evening_def ex_next_day_def ex_repos_early_def ex_pull_def ex_repo_pulls_def ex_user_inactive_def
  ex_db_inactive_def ex_payload_def ex_payload_to_nobody_def

section \<open>Facts about the store and the session\<close>

lemma find_map_update:
  "find P xs = Some l \<Longrightarrow> P l' \<Longrightarrow>
   find P (map (\<lambda>r. if lid r = lid l then l' else r) xs) = Some l'"
  by (induction xs) (auto split: if_splits)

lemma find_append_new:
  "find P xs = None \<Longrightarrow> P x \<Longrightarrow> find P (xs @ [x]) = Some x"
  by (induction xs) (auto split: if_splits)

lemma get_by_date_key:
  "get_by_date d k t = Some l \<Longrightarrow> user_id l = k \<and> log_date l = t"
  unfolding get_by_date_def by (auto dest: find_Some_iff[THEN iffD1])

lemma new_daily_log_key [simp]:
  "user_id (new_daily_log k t) = k" "log_date (new_daily_log k t) = t"
  by (simp_all add: new_daily_log_def)

lemma add_row_fresh: "add_row d (new_daily_log k t) = with_fresh_log d k t"
  by (simp add: add_row_def with_fresh_log_def)

lemma get_by_date_with_fresh_log:
  "get_by_date d k t = None \<Longrightarrow>
   get_by_date (with_fresh_log d k t) k t = Some ((new_daily_log k t)\<lparr>lid := log_seq d + 1\<rparr>)"
  by (simp add: get_by_date_def with_fresh_log_def new_daily_log_def find_append_new)

lemma needs_rollback_with_fresh_log [simp]:
  "needs_rollback (with_fresh_log s k t) = needs_rollback s"
  by (simp add: with_fresh_log_def)

lemma get_by_date_flag [simp]:
  "get_by_date (s\<lparr>needs_rollback := b\<rparr>) k t = get_by_date s k t"
  by (simp add: get_by_date_def)

lemma daily_logs_rollback [simp]: "daily_logs (rollback s) = daily_logs s"
  by (simp add: rollback_def)

lemma rollback_idle: "\<not> needs_rollback s \<Longrightarrow> rollback s = s"
  by (simp add: rollback_def)

lemma session_use_Inr: "session_use rt s v = Inr w \<longleftrightarrow> \<not> needs_rollback s \<and> w = v"
  by (auto simp: session_use_def)

lemma session_use_Inl:
  "session_use rt s v = Inl e \<longleftrightarrow>
     needs_rollback s \<and> e = PendingRollbackError (pending_rollback_text rt)"
  by (auto simp: session_use_def)

text \<open>The four ways \<open>get_or_create\<close> ends.\<close>

lemma get_or_create_pending:
  "needs_rollback s \<Longrightarrow>
   get_or_create rt ev s k t = (Inl (PendingRollbackError (pending_rollback_text rt)), s)"
  by (simp add: get_or_create_def session_use_def)

lemma get_or_create_existing:
  "\<not> needs_rollback s \<Longrightarrow> get_by_date s k t = Some l \<Longrightarrow>
   get_or_create rt ev s k t = (Inr l, s)"
  by (simp add: get_or_create_def session_use_def)

lemma get_or_create_absent:
  "\<not> needs_rollback s \<Longrightarrow> get_by_date s k t = None \<Longrightarrow> \<not> racing_create ev \<Longrightarrow>
   get_or_create rt ev s k t =
     (Inr ((new_daily_log k t)\<lparr>lid := log_seq s + 1\<rparr>), with_fresh_log s k t)"
  by (simp add: get_or_create_def session_use_def insert_daily_log_def add_row_fresh)

lemma get_or_create_raced:
  assumes "\<not> needs_rollback s" and "get_by_date s k t = None" and "racing_create ev"
  shows "get_or_create rt ev s k t =
     (Inl (IntegrityError (integrity_text rt)),
      (with_fresh_log s k t)\<lparr>needs_rollback := True\<rparr>)"
proof -
  have other: "other_caller_creates s k t = with_fresh_log s k t"
    using assms(2) by (simp add: other_caller_creates_def add_row_fresh)
  have "insert_daily_log rt (with_fresh_log s k t) (new_daily_log k t) =
          (Inl (IntegrityError (integrity_text rt)),
           (with_fresh_log s k t)\<lparr>needs_rollback := True\<rparr>)"
    using get_by_date_with_fresh_log[OF assms(2)] assms(1)
    by (simp add: insert_daily_log_def)
  with assms other show ?thesis
    by (simp add: get_or_create_def session_use_def)
qed

lemma get_or_create_cases:
  obtains
    (pending) "needs_rollback s"
      "get_or_create rt ev s k t = (Inl (PendingRollbackError (pending_rollback_text rt)), s)"
  | (existing) l where "\<not> needs_rollback s" "get_by_date s k t = Some l"
      "get_or_create rt ev s k t = (Inr l, s)"
  | (absent) "\<not> needs_rollback s" "get_by_date s k t = None" "\<not> racing_create ev"
      "get_or_create rt ev s k t =
         (Inr ((new_daily_log k t)\<lparr>lid := log_seq s + 1\<rparr>), with_fresh_log s k t)"
  | (raced) "\<not> needs_rollback s" "get_by_date s k t = None" "racing_create ev"
      "get_or_create rt ev s k t =
         (Inl (IntegrityError (integrity_text rt)),
          (with_fresh_log s k t)\<lparr>needs_rollback := True\<rparr>)"
proof (cases "needs_rollback s")
  case True
  then show ?thesis using pending get_or_create_pending by blast
next
  case idle: False
  show ?thesis
  proof (cases "get_by_date s k t")
    case (Some l)
    with idle show ?thesis using existing get_or_create_existing by blast
  next
    case None
    show ?thesis
    proof (cases "racing_create ev")
      case True
      with idle None show ?thesis using raced get_or_create_raced by blast
    next
      case False
      with idle None show ?thesis using absent get_or_create_absent by blast
    qed
  qed
qed

lemma get_or_create_Inr:
  assumes "get_or_create rt ev s k t = (Inr l, s1)"
  shows "\<not> needs_rollback s \<and> \<not> needs_rollback s1 \<and> get_by_date s1 k t = Some l \<and>
         s1 = (case get_by_date s k t of Some l0 \<Rightarrow> s | None \<Rightarrow> with_fresh_log s k t)"
  using assms
  by (cases rule: get_or_create_cases[of s rt ev k t])
     (auto simp: get_by_date_with_fresh_log)

lemma get_or_create_Inl:
  assumes "get_or_create rt ev s k t = (Inl e, s1)"
  shows "needs_rollback s1"
  using assms
  by (cases rule: get_or_create_cases[of s rt ev k t]) auto

lemma get_or_create_rows:
  "set (daily_logs (snd (get_or_create rt ev s k t)))
     \<subseteq> insert ((new_daily_log k t)\<lparr>lid := log_seq s + 1\<rparr>) (set (daily_logs s))"
  by (cases rule: get_or_create_cases[of s rt ev k t])
     (auto simp: with_fresh_log_def)

lemma commit_daily_log_None:
  assumes "commit_daily_log rt outcome s l' = (None, s2)"
  shows "\<not> needs_rollback s \<and> \<not> needs_rollback s2 \<and> outcome = Committed \<and>
         s2 = s\<lparr>daily_logs := map (\<lambda>r. if lid r = lid l' then l' else r) (daily_logs s)\<rparr>"
  using assms
  by (cases outcome) (auto simp: commit_daily_log_def split: if_splits)

lemma commit_daily_log_found:
  "commit_daily_log rt outcome s l' = (None, s2) \<Longrightarrow> get_by_date s k t = Some l \<Longrightarrow>
   lid l' = lid l \<Longrightarrow> user_id l' = k \<Longrightarrow> log_date l' = t \<Longrightarrow>
   get_by_date s2 k t = Some l'"
  by (drule commit_daily_log_None) (auto simp: get_by_date_def find_map_update)


lemma commit_daily_log_Some:
  assumes "commit_daily_log rt outcome s l' = (Some e, s2)"
  shows "(needs_rollback s2 \<or> s2 = s) \<and> daily_logs s2 = daily_logs s \<and> log_seq s2 = log_seq s
         \<and> users s2 = users s"
  using assms
  by (cases outcome) (auto simp: commit_daily_log_def split: if_splits)


section \<open>Facts about a verification run\<close>

lemma default_target_date_Some [simp]: "default_target_date rt u (Some t) = Inr t"
  by (simp add: default_target_date_def)

lemma verified_log_keys [simp]:
  "lid (verified_log rt l a m) = lid l"
  "user_id (verified_log rt l a m) = user_id l"
  "log_date (verified_log rt l a m) = log_date l"
  by (simp_all add: verified_log_def)

lemma get_daily_activity_counts:
  "get_daily_activity rt gh t un = Inr a \<Longrightarrow>
   a_commits_count a = int (length (a_commits a)) \<and>
   a_prs_count a = int (length (a_pull_requests a)) \<and>
   a_issues_count a = int (length (a_issues a)) \<and>
   a_total_activity a = a_commits_count a + a_prs_count a + a_issues_count a \<and>
   a_date a = t"
  unfolding get_daily_activity_def
  by (auto split: sum.splits simp: Let_def)


text \<open>The body of the \<open>try\<close>: how it returns a success, a failure, or an exception.\<close>

lemma verify_user_day_try_success:
  assumes "verify_user_day_try rt ev s u t m = (Inr r, s')" and "r_success r"
  shows "\<exists>l s1 a.
    get_or_create rt ev s (uid u) t = (Inr l, s1) \<and>
    test_connection (github_for ev (github_token u)) = Inr True \<and>
    get_daily_activity rt (github_for ev (github_token u)) t (Some (github_username u)) = Inr a \<and>
    commit_daily_log rt (commit_outcome ev) s1 (verified_log rt l a m) = (None, s') \<and>
    r = success_result t l a m"
  using assms unfolding verify_user_day_try_def verified_log_def success_result_def
  by (auto split: sum.splits prod.splits bool.splits option.splits
           simp: Let_def create_error_result_def)

lemma verify_user_day_try_failure:
  assumes "verify_user_day_try rt ev s u t m = (Inr r, s')" and "\<not> r_success r"
  shows "\<exists>l msg. get_or_create rt ev s (uid u) t = (Inr l, s') \<and> r = create_error_result msg"
  using assms unfolding verify_user_day_try_def
  by (auto split: sum.splits prod.splits bool.splits option.splits
           simp: Let_def create_error_result_def)

lemma verify_user_day_try_raises:
  assumes "verify_user_day_try rt ev s u t m = (Inl e, s')"
  shows "needs_rollback s' \<or> (\<exists>l. get_or_create rt ev s (uid u) t = (Inr l, s'))"
  using assms unfolding verify_user_day_try_def
  by (auto split: sum.splits prod.splits bool.splits option.splits simp: Let_def
           dest: get_or_create_Inl commit_daily_log_Some)

lemma verify_user_day_success:
  assumes "verify_user_day rt ev s u (Some t) m = (Inr r, s')" and "r_success r"
  shows "\<exists>l s1 a.
    \<not> needs_rollback s \<and>
    get_or_create rt ev s (uid u) t = (Inr l, s1) \<and>
    test_connection (github_for ev (github_token u)) = Inr True \<and>
    get_daily_activity rt (github_for ev (github_token u)) t (Some (github_username u)) = Inr a \<and>
    commit_daily_log rt (commit_outcome ev) s1 (verified_log rt l a m) = (None, s') \<and>
    r = success_result t l a m"
proof -
  from assms have idle: "\<not> needs_rollback s"
    by (auto simp: verify_user_day_def session_use_def split: if_splits)
  from assms idle have "verify_user_day_try rt ev s u t m = (Inr r, s')"
    by (auto simp: verify_user_day_def session_use_def create_error_result_def
             split: sum.splits prod.splits if_splits)
  from verify_user_day_try_success[OF this assms(2)] idle show ?thesis by blast
qed

lemma verify_user_day_failure:
  assumes "verify_user_day rt ev s u (Some t) m = (Inr r, s')" and "\<not> r_success r"
  shows "\<exists>l msg. \<not> needs_rollback s \<and> get_or_create rt ev s (uid u) t = (Inr l, s') \<and>
                 r = create_error_result msg"
proof -
  from assms have idle: "\<not> needs_rollback s"
    by (auto simp: verify_user_day_def session_use_def split: if_splits)
  obtain res s1 where body: "verify_user_day_try rt ev s u t m = (res, s1)" by fastforce
  show ?thesis
  proof (cases res)
    case (Inr r')
    with assms body idle have "r' = r" "s1 = s'"
      by (auto simp: verify_user_day_def session_use_def)
    with body Inr verify_user_day_try_failure[of rt ev s u t m r s'] assms(2) idle
    show ?thesis by blast
  next
    case (Inl e)
    with assms body idle have usable: "\<not> needs_rollback s1"
      and out: "r = create_error_result (str_exn e)" "s' = rollback s1"
      by (auto simp: verify_user_day_def session_use_def split: if_splits)
    from verify_user_day_try_raises[of rt ev s u t m e s1] body Inl usable
    obtain l where "get_or_create rt ev s (uid u) t = (Inr l, s1)" by auto
    with out usable idle show ?thesis by (auto simp: rollback_idle)
  qed
qed

lemma verify_user_day_raises:
  assumes "verify_user_day rt ev s u (Some t) m = (Inl e, s')"
  shows "e = PendingRollbackError (pending_rollback_text rt) \<and> needs_rollback s'"
  using assms
  by (auto simp: verify_user_day_def session_use_def split: sum.splits prod.splits if_splits)

lemma verify_user_day_returns:
  assumes "\<not> needs_rollback s" and "\<not> racing_create ev" and "\<not> flush_refused (commit_outcome ev)"
  shows "\<exists>r s'. verify_user_day rt ev s u (Some t) m = (Inr r, s')"
proof -
  obtain res s1 where body: "verify_user_day_try rt ev s u t m = (res, s1)" by fastforce
  have "\<not> needs_rollback s1"
  proof -
    obtain gl g1 where g: "get_or_create rt ev s (uid u) t = (gl, g1)" by fastforce
    have g1: "\<not> needs_rollback g1" "\<exists>l. gl = Inr l"
      using g assms(1,2)
      by (cases rule: get_or_create_cases[of s rt ev "uid u" t]; auto)+
    then obtain l where gl: "gl = Inr l" by blast
    have c: "\<not> needs_rollback (snd (commit_daily_log rt (commit_outcome ev) g1 l'))" for l'
      using g1(1) assms(3)
      by (cases "commit_outcome ev") (auto simp: commit_daily_log_def)
    show ?thesis
      using body g gl g1(1) c
      unfolding verify_user_day_try_def
      by (auto split: sum.splits prod.splits bool.splits option.splits simp: Let_def)
         (metis snd_conv)+
  qed
  with body assms(1) show ?thesis
    by (cases res) (auto simp: verify_user_day_def session_use_def)
qed

lemma verify_user_day_stored:
  assumes run: "verify_user_day rt ev d u (Some t) m = (Inr r, d')" and ok: "r_success r"
  shows "\<exists>l a. get_daily_activity rt (github_for ev (github_token u)) t
                  (Some (github_username u)) = Inr a \<and>
               get_by_date d' (uid u) t = Some (verified_log rt l a m) \<and>
               r = success_result t l a m"
proof -
  from verify_user_day_success[OF run ok] obtain l d1 a where
    goc: "get_or_create rt ev d (uid u) t = (Inr l, d1)"
    and act: "get_daily_activity rt (github_for ev (github_token u)) t
                (Some (github_username u)) = Inr a"
    and com: "commit_daily_log rt (commit_outcome ev) d1 (verified_log rt l a m) = (None, d')"
    and r: "r = success_result t l a m"
    by auto
  from get_or_create_Inr[OF goc] have found: "get_by_date d1 (uid u) t = Some l" by (elim conjE)
  from get_by_date_key[OF found] have "user_id l = uid u" "log_date l = t" by simp_all
  with commit_daily_log_found[OF com found]
  have "get_by_date d' (uid u) t = Some (verified_log rt l a m)" by simp
  with act r show ?thesis by blast
qed

section \<open>The Verification Engine\<close>

text \<open>
  Claim C1. Whenever a verification run for an explicit date returns a result and the
  run succeeded, the result's \<open>passed\<close> flag is true exactly when the commit, pull
  request and issue counts of its snapshot add up to at least the threshold
  \<open>min_commits\<close>, these counts being the lengths of the snapshot's item lists; a
  result that reports a failure has \<open>passed = False\<close>. A run that returns no result
  ends with \<open>PendingRollbackError\<close> and leaves the session awaiting a rollback. A run
  returns a result whenever the session is in working order, no other caller creates the
  record meanwhile, and the store does not refuse the flush of the final commit.
\<close>

theorem passed_iff_threshold:
  "(case verify_user_day rt ev d u (Some t) m of
      (Inr r, d') \<Rightarrow>
        (r_success r \<longrightarrow>
           r_passed r = (r_commits_count r + r_prs_count r + r_issues_count r \<ge> m) \<and>
           (\<exists>a. r_details r = Some a \<and>
                 r_commits_count r = int (length (a_commits a)) \<and>
                 r_prs_count r = int (length (a_pull_requests a)) \<and>
                 r_issues_count r = int (length (a_issues a)))) \<and>
        (\<not> r_success r \<longrightarrow> \<not> r_passed r)
    | (Inl e, d') \<Rightarrow> e = PendingRollbackError (pending_rollback_text rt) \<and> needs_rollback d') \<and>
   (\<not> needs_rollback d \<and> \<not> racing_create ev \<and> \<not> flush_refused (commit_outcome ev) \<longrightarrow>
      (\<exists>r d'. verify_user_day rt ev d u (Some t) m = (Inr r, d')))"
proof (intro conjI impI)
  obtain res d' where run: "verify_user_day rt ev d u (Some t) m = (res, d')" by fastforce
  show "case verify_user_day rt ev d u (Some t) m of
      (Inr r, d') \<Rightarrow>
        (r_success r \<longrightarrow>
           r_passed r = (r_commits_count r + r_prs_count r + r_issues_count r \<ge> m) \<and>
           (\<exists>a. r_details r = Some a \<and>
                 r_commits_count r = int (length (a_commits a)) \<and>
                 r_prs_count r = int (length (a_pull_requests a)) \<and>
                 r_issues_count r = int (length (a_issues a)))) \<and>
        (\<not> r_success r \<longrightarrow> \<not> r_passed r)
    | (Inl e, d') \<Rightarrow> e = PendingRollbackError (pending_rollback_text rt) \<and> needs_rollback d'"
  proof (cases res)
    case (Inl e)
    with run verify_user_day_raises[of rt ev d u t m e d'] show ?thesis by simp
  next
    case (Inr r)
    have ok: "r_passed r = (r_commits_count r + r_prs_count r + r_issues_count r \<ge> m) \<and>
          (\<exists>a. r_details r = Some a \<and>
                r_commits_count r = int (length (a_commits a)) \<and>
                r_prs_count r = int (length (a_pull_requests a)) \<and>
                r_issues_count r = int (length (a_issues a)))" if "r_success r"
    proof -
      from verify_user_day_success[OF run[unfolded Inr] that] obtain l a where
        act: "get_daily_activity rt (github_for ev (github_token u)) t
                (Some (github_username u)) = Inr a"
        and r: "r = success_result t l a m"
        by blast
      from get_daily_activity_counts[OF act] show ?thesis
        by (simp add: r success_result_def)
    qed
    have bad: "\<not> r_passed r" if "\<not> r_success r"
    proof -
      from verify_user_day_failure[OF run[unfolded Inr] that] obtain msg
        where "r = create_error_result msg" by blast
      then show ?thesis by (simp add: create_error_result_def)
    qed
    from run Inr ok bad show ?thesis by simp
  qed
next
  assume "\<not> needs_rollback d \<and> \<not> racing_create ev \<and> \<not> flush_refused (commit_outcome ev)"
  then show "\<exists>r d'. verify_user_day rt ev d u (Some t) m = (Inr r, d')"
    using verify_user_day_returns by blast
qed

text \<open>
  With the default threshold 1: no activity gives \<open>passed = False\<close>, a single commit
  gives \<open>passed = True\<close>, and a run that cannot reach GitHub does not pass. A run
  whose record another caller creates first returns nothing.
\<close>

theorem passed_iff_threshold_witness:
  "(\<exists>r d'. verify_user_day ex_rt ex_env_none (get_db ex_db) ex_user (Some ex_day) 1 = (Inr r, d') \<and>
      r_success r \<and> r_commits_count r = 0 \<and> r_prs_count r = 0 \<and> r_issues_count r = 0 \<and>
      r_passed r = False) \<and>
   (\<exists>r d'. verify_user_day ex_rt ex_env_one (get_db ex_db) ex_user (Some ex_day) 1 = (Inr r, d') \<and>
      r_success r \<and> r_commits_count r = 1 \<and> r_prs_count r = 0 \<and> r_issues_count r = 0 \<and>
      r_passed r = True) \<and>
   (\<exists>r d'. verify_user_day ex_rt ex_env_down (get_db ex_db) ex_user (Some ex_day) 0 = (Inr r, d') \<and>
      \<not> r_success r \<and> r_passed r = False) \<and>
   (\<exists>d'. verify_user_day ex_rt ex_env_racing (get_db ex_db) ex_user (Some ex_day) 1 =
            (Inl (PendingRollbackError (pending_rollback_text ex_rt)), d') \<and> needs_rollback d') \<and>
   \<not> needs_rollback (get_db ex_db) \<and> \<not> racing_create ex_env_one \<and>
   \<not> flush_refused (commit_outcome ex_env_one)"
  using passed_iff_threshold [where rt=ex_rt and ev=ex_env_none and d="get_db ex_db" and u=ex_user
                                and t=ex_day and m=1]
        passed_iff_threshold [where rt=ex_rt and ev=ex_env_one and d="get_db ex_db" and u=ex_user
                                and t=ex_day and m=1]
        passed_iff_threshold [where rt=ex_rt and ev=ex_env_down and d="get_db ex_db" and u=ex_user
                                and t=ex_day and m=0]
        passed_iff_threshold [where rt=ex_rt and ev=ex_env_racing and d="get_db ex_db" and u=ex_user
                                and t=ex_day and m=1]
  by (simp add: service_defs store_defs github_defs time_defs ex_defs Let_def)

text \<open>
  Claim C2. Two verification runs in sequence for the same user and date, against
  different activity: after the second run the record's three counts, its
  \<open>verification_passed\<close> flag and its detail snapshot are those of the second run's
  result, and the same as if the second run had been the only one. Nothing of the first
  run's counts is added.
\<close>

theorem second_run_overwrites:
  assumes first: "verify_user_day rt1 ev1 d0 u (Some t) m1 = (res1, d1)"
      and second: "verify_user_day rt2 ev2 d1 u (Some t) m2 = (Inr r2, d2)"
      and ok2: "r_success r2"
      and alone: "verify_user_day rt2 ev2 d0 u (Some t) m2 = (Inr ra, da)"
      and oka: "r_success ra"
  shows "\<exists>l la. get_by_date d2 (uid u) t = Some l \<and> get_by_date da (uid u) t = Some la \<and>
           commits_count l = commits_count la \<and> prs_count l = prs_count la \<and>
           issues_count l = issues_count la \<and>
           verification_passed l = verification_passed la \<and>
           verification_details l = verification_details la \<and>
           commits_count l = r_commits_count r2 \<and> prs_count l = r_prs_count r2 \<and>
           issues_count l = r_issues_count r2 \<and>
           verification_passed l = Some (r_passed r2) \<and>
           verification_details l = r_details r2"
proof -
  from verify_user_day_stored[OF second ok2] obtain l a where
    act: "get_daily_activity rt2 (github_for ev2 (github_token u)) t
            (Some (github_username u)) = Inr a"
    and st: "get_by_date d2 (uid u) t = Some (verified_log rt2 l a m2)"
    and r2: "r2 = success_result t l a m2"
    by blast
  from verify_user_day_stored[OF alone oka] obtain l' a' where
    act': "get_daily_activity rt2 (github_for ev2 (github_token u)) t
            (Some (github_username u)) = Inr a'"
    and st': "get_by_date da (uid u) t = Some (verified_log rt2 l' a' m2)"
    by blast
  from act act' have "a' = a" by simp
  with st st' r2 show ?thesis
    by (simp add: verified_log_def success_result_def)
qed

text \<open>
  One commit seen by the first run, two by the second: the record says two.
\<close>

theorem second_run_overwrites_witness:
  "\<exists>res1 d1 r2 d2 ra da l la.
     verify_user_day ex_rt ex_env_one (get_db ex_db) ex_user (Some ex_day) 1 = (res1, d1) \<and>
     verify_user_day ex_rt ex_env_two d1 ex_user (Some ex_day) 1 = (Inr r2, d2) \<and>
     r_success r2 \<and>
     verify_user_day ex_rt ex_env_two (get_db ex_db) ex_user (Some ex_day) 1 = (Inr ra, da) \<and>
     r_success ra \<and>
     get_by_date d1 (uid ex_user) ex_day \<noteq> None \<and>
     map_option commits_count (get_by_date d1 (uid ex_user) ex_day) = Some 1 \<and>
     get_by_date d2 (uid ex_user) ex_day = Some l \<and>
     get_by_date da (uid ex_user) ex_day = Some la \<and>
     commits_count l = 2 \<and> commits_count la = 2 \<and>
     verification_passed l = Some True \<and>
     verification_details l = verification_details la"
proof -
  obtain res1 d1 where run1:
    "verify_user_day ex_rt ex_env_one (get_db ex_db) ex_user (Some ex_day) 1 = (res1, d1)"
    by fastforce
  have d1: "\<not> needs_rollback d1 \<and>
            map_option commits_count (get_by_date d1 (uid ex_user) ex_day) = Some 1"
    using run1 by (auto simp: service_defs store_defs github_defs time_defs ex_defs Let_def)
  obtain r2 d2 where run2:
    "verify_user_day ex_rt ex_env_two d1 ex_user (Some ex_day) 1 = (Inr r2, d2)"
    using verify_user_day_returns[where s=d1 and ev=ex_env_two] d1
    by (simp add: ex_env_two_def ex_env_def) blast
  obtain ra da where alone:
    "verify_user_day ex_rt ex_env_two (get_db ex_db) ex_user (Some ex_day) 1 = (Inr ra, da)"
    using verify_user_day_returns[where s="get_db ex_db" and ev=ex_env_two]
    by (simp add: ex_env_two_def ex_env_def get_db_def) blast
  have r2: "r_success r2 \<and> r_commits_count r2 = 2 \<and> r_passed r2"
    using run1 run2
    by (auto simp: service_defs store_defs github_defs time_defs ex_defs Let_def)
  have ra: "r_success ra"
    using alone
    by (auto simp: service_defs store_defs github_defs time_defs ex_defs Let_def)
  from second_run_overwrites [OF run1 run2 _ alone ra] r2 obtain l la where
    "get_by_date d2 (uid ex_user) ex_day = Some l"
    "get_by_date da (uid ex_user) ex_day = Some la"
    "commits_count l = commits_count la" "commits_count l = r_commits_count r2"
    "verification_passed l = Some (r_passed r2)"
    "verification_details l = verification_details la"
    by blast
  with run1 run2 alone d1 r2 ra show ?thesis by auto
qed



section \<open>The batch over all users\<close>

text \<open>
  Claim C4: the code falls short of it. A batch over three active users, none of whom
  has a record for the day; while the first user's run is between the read and the
  insert of \<open>get_or_create\<close>, another caller creates that user's record. The refused
  insert leaves the session awaiting a rollback. The \<open>except\<close> clause of
  \<open>verify_user_day\<close> reads \<open>user.email\<close> for its log line before it rolls back, so
  \<open>PendingRollbackError\<close> leaves \<open>verify_user_day\<close> and \<open>verify_and_notify\<close>; the
  \<open>except\<close> clause of the batch loop reads \<open>user.email\<close> again, so the exception
  leaves \<open>verify_all_users\<close>: no counters are returned, and the second and the third
  user are never processed. Without the other caller, the same batch processes all three.
\<close>

theorem batch_stops_at_conflict:
  "map email (get_active_users (get_db ex_db3)) =
     [''test@example.com'', ''second@example.com'', ''third@example.com''] \<and>
   fst (get_or_create ex_rt (ex_env_for ex_user) (get_db ex_db3) (uid ex_user) ex_day) =
     Inl (IntegrityError (integrity_text ex_rt)) \<and>
   fst (verify_user_day ex_rt (ex_env_for ex_user) (get_db ex_db3) ex_user (Some ex_day) 1) =
     Inl (PendingRollbackError (pending_rollback_text ex_rt)) \<and>
   fst (verify_and_notify ex_rt (ex_env_for ex_user) (get_db ex_db3) ex_user (Some ex_day)) =
     Inl (PendingRollbackError (pending_rollback_text ex_rt)) \<and>
   fst (verify_all_users ex_rt ex_env_for (get_db ex_db3) (Some ex_day)) =
     Inl (PendingRollbackError (pending_rollback_text ex_rt)) \<and>
   get_by_date (snd (verify_all_users ex_rt ex_env_for (get_db ex_db3) (Some ex_day)))
     (uid ex_user2) ex_day = None \<and>
   get_by_date (snd (verify_all_users ex_rt ex_env_for (get_db ex_db3) (Some ex_day)))
     (uid ex_user3) ex_day = None \<and>
   (\<exists>results s. verify_all_users ex_rt (\<lambda>u. ex_env_one) (get_db ex_db3) (Some ex_day) =
                   (Inr results, s) \<and>
      b_total_users results = 3 \<and> b_successful results = 3 \<and> b_failed results = 0 \<and>
      map ur_user_email (b_user_results results) =
        [''test@example.com'', ''second@example.com'', ''third@example.com''])"
  by (simp add: service_defs store_defs github_defs time_defs ex_defs Let_def)

section \<open>The Activity Aggregator\<close>

lemma commits_loop_merge:
  "\<forall>r \<in> set repos. github_only (snd (get_commits r n s e)) \<Longrightarrow>
   commits_loop n s e repos acc =
     Inr (acc @ concat (map (\<lambda>r. map (mk_commit_data r) (fst (get_commits r n s e))) repos))"
proof (induction repos arbitrary: acc)
  case Nil
  show ?case by simp
next
  case (Cons r repos)
  obtain cs err where f: "get_commits r n s e = (cs, err)" by fastforce
  with Cons.prems have "github_only err" by simp
  with f Cons show ?case
    by (cases err) (simp_all add: Let_def)
qed

lemma scan_pulls_acc:
  "scan_pulls r t s n prs err acc =
     (acc @ fst (scan_pulls r t s n prs err []), snd (scan_pulls r t s n prs err []))"
proof (induction prs arbitrary: acc)
  case Nil
  show ?case by simp
next
  case (Cons pr prs)
  show ?case
    using Cons.IH[of "acc @ [mk_pr_data r pr]"] Cons.IH[of "[mk_pr_data r pr]"] Cons.IH[of acc]
    by (simp add: Let_def)
qed

lemma scan_pulls_err:
  "github_only err \<Longrightarrow> github_only (snd (scan_pulls r t s n prs err acc))"
  by (induction prs arbitrary: acc) (simp_all add: Let_def)

lemma pulls_of_repo_acc:
  "pulls_of_repo r t s n acc =
     (acc @ fst (pulls_of_repo r t s n []), snd (pulls_of_repo r t s n []))"
proof -
  obtain prs err where o: "get_pulls r ''open'' = (prs, err)" by fastforce
  obtain prs2 err2 where c: "get_pulls r ''closed'' = (prs2, err2)" by fastforce
  obtain x1 e1 where s1: "scan_pulls r t s n prs err [] = (x1, e1)" by fastforce
  have s1': "scan_pulls r t s n prs err acc = (acc @ x1, e1)"
    using scan_pulls_acc[of r t s n prs err acc] s1 by simp
  show ?thesis
  proof (cases e1)
    case None
    obtain x2 e2 where s2: "scan_pulls r t s n prs2 err2 [] = (x2, e2)" by fastforce
    have "scan_pulls r t s n prs2 err2 (acc @ x1) = (acc @ x1 @ x2, e2)"
      using scan_pulls_acc[of r t s n prs2 err2 "acc @ x1"] s2 by simp
    moreover have "scan_pulls r t s n prs2 err2 x1 = (x1 @ x2, e2)"
      using scan_pulls_acc[of r t s n prs2 err2 x1] s2 by simp
    ultimately show ?thesis
      using o c s1 s1' None by (simp add: pulls_of_repo_def)
  next
    case (Some e)
    then show ?thesis
      using o s1 s1' by (simp add: pulls_of_repo_def)
  qed
qed

lemma pulls_of_repo_err:
  assumes "\<forall>st. github_only (snd (get_pulls r st))"
  shows "github_only (snd (pulls_of_repo r t s n acc))"
proof -
  obtain prs err where o: "get_pulls r ''open'' = (prs, err)" by fastforce
  obtain prs2 err2 where c: "get_pulls r ''closed'' = (prs2, err2)" by fastforce
  from assms o c have g: "github_only err" "github_only err2"
    by (metis snd_conv)+
  obtain x1 e1 where s1: "scan_pulls r t s n prs err acc = (x1, e1)" by fastforce
  with scan_pulls_err[OF g(1), of r t s n prs acc] have g1: "github_only e1" by simp
  show ?thesis
    using o c s1 g1 scan_pulls_err[OF g(2), of r t s n prs2 x1]
    by (cases e1) (simp_all add: pulls_of_repo_def)
qed

lemma pulls_loop_merge:
  "\<forall>r \<in> set repos. \<forall>st. github_only (snd (get_pulls r st)) \<Longrightarrow>
   pulls_loop t s n repos acc =
     Inr (acc @ concat (map (\<lambda>r. fst (pulls_of_repo r t s n [])) repos))"
proof (induction repos arbitrary: acc)
  case Nil
  show ?case by simp
next
  case (Cons r repos)
  obtain x err where f: "pulls_of_repo r t s n [] = (x, err)" by fastforce
  then have f': "pulls_of_repo r t s n acc = (acc @ x, err)"
    using pulls_of_repo_acc[of r t s n acc] by simp
  from Cons.prems have "github_only (snd (pulls_of_repo r t s n []))"
    by (intro pulls_of_repo_err) simp
  with f have "github_only err" by simp
  with f f' Cons show ?case
    by (cases err) simp_all
qed

lemma scan_issues_acc:
  "scan_issues r t s iss err acc =
     (acc @ fst (scan_issues r t s iss err []), snd (scan_issues r t s iss err []))"
proof (induction iss arbitrary: acc)
  case Nil
  show ?case by simp
next
  case (Cons i iss)
  show ?case
    using Cons.IH[of "acc @ [mk_issue_data r i]"] Cons.IH[of "[mk_issue_data r i]"] Cons.IH[of acc]
    by (simp add: Let_def)
qed

lemma scan_issues_err:
  "github_only err \<Longrightarrow> github_only (snd (scan_issues r t s iss err acc))"
  by (induction iss arbitrary: acc) (simp_all add: Let_def)

lemma issues_of_repo_acc:
  "issues_of_repo r t s n acc =
     (acc @ fst (issues_of_repo r t s n []), snd (issues_of_repo r t s n []))"
proof -
  obtain iss err where o: "get_issues r ''open'' n = (iss, err)" by fastforce
  obtain iss2 err2 where c: "get_issues r ''closed'' n = (iss2, err2)" by fastforce
  obtain x1 e1 where s1: "scan_issues r t s iss err [] = (x1, e1)" by fastforce
  have s1': "scan_issues r t s iss err acc = (acc @ x1, e1)"
    using scan_issues_acc[of r t s iss err acc] s1 by simp
  show ?thesis
  proof (cases e1)
    case None
    obtain x2 e2 where s2: "scan_issues r t s iss2 err2 [] = (x2, e2)" by fastforce
    have "scan_issues r t s iss2 err2 (acc @ x1) = (acc @ x1 @ x2, e2)"
      using scan_issues_acc[of r t s iss2 err2 "acc @ x1"] s2 by simp
    moreover have "scan_issues r t s iss2 err2 x1 = (x1 @ x2, e2)"
      using scan_issues_acc[of r t s iss2 err2 x1] s2 by simp
    ultimately show ?thesis
      using o c s1 s1' None by (simp add: issues_of_repo_def)
  next
    case (Some e)
    then show ?thesis
      using o s1 s1' by (simp add: issues_of_repo_def)
  qed
qed

lemma issues_of_repo_err:
  assumes "\<forall>st c. github_only (snd (get_issues r st c))"
  shows "github_only (snd (issues_of_repo r t s n acc))"
proof -
  obtain iss err where o: "get_issues r ''open'' n = (iss, err)" by fastforce
  obtain iss2 err2 where c: "get_issues r ''closed'' n = (iss2, err2)" by fastforce
  from assms o c have g: "github_only err" "github_only err2"
    by (metis snd_conv)+
  obtain x1 e1 where s1: "scan_issues r t s iss err acc = (x1, e1)" by fastforce
  with scan_issues_err[OF g(1), of r t s iss acc] have g1: "github_only e1" by simp
  show ?thesis
    using o c s1 g1 scan_issues_err[OF g(2), of r t s iss2 x1]
    by (cases e1) (simp_all add: issues_of_repo_def)
qed

lemma issues_loop_merge:
  "\<forall>r \<in> set repos. \<forall>st c. github_only (snd (get_issues r st c)) \<Longrightarrow>
   issues_loop t s n repos acc =
     Inr (acc @ concat (map (\<lambda>r. fst (issues_of_repo r t s n [])) repos))"
proof (induction repos arbitrary: acc)
  case Nil
  show ?case by simp
next
  case (Cons r repos)
  obtain x err where f: "issues_of_repo r t s n [] = (x, err)" by fastforce
  then have f': "issues_of_repo r t s n acc = (acc @ x, err)"
    using issues_of_repo_acc[of r t s n acc] by simp
  from Cons.prems have "github_only (snd (issues_of_repo r t s n []))"
    by (intro issues_of_repo_err) simp
  with f have "github_only err" by simp
  with f f' Cons show ?case
    by (cases err) simp_all
qed

text \<open>
  Claim C5, as amended. When the repositories can be listed and the only exceptions
  their commit, pull request and issue fetches raise are of the client's class
  \<open>GithubException\<close>, the aggregation returns a snapshot (nothing propagates), and the
  snapshot's three lists are the merge, in repository order, of what each repository
  yielded: all of its items when its fetch did not fail, its items up to the failure when
  it did. So no repository's failure removes another repository's items.
\<close>

theorem aggregation_isolates_github_errors:
  assumes repos: "get_user_repos gh = Inr repos"
      and errs: "\<forall>r \<in> set repos.
                   (\<forall>a s e. github_only (snd (get_commits r a s e))) \<and>
                   (\<forall>st. github_only (snd (get_pulls r st))) \<and>
                   (\<forall>st c. github_only (snd (get_issues r st c)))"
  shows "\<exists>a. get_daily_activity rt gh t (Some n) = Inr a \<and>
           a_commits a =
             concat (map (\<lambda>r. map (mk_commit_data r)
                                  (fst (get_commits r n (get_start_of_day rt (Some t) None)
                                                        (get_end_of_day rt (Some t) None))))
                         repos) \<and>
           a_pull_requests a =
             concat (map (\<lambda>r. fst (pulls_of_repo r t (get_start_of_day rt (Some t) None) n []))
                         repos) \<and>
           a_issues a =
             concat (map (\<lambda>r. fst (issues_of_repo r t (get_start_of_day rt (Some t) None) n []))
                         repos)"
proof -
  let ?s = "get_start_of_day rt (Some t) None"
  let ?e = "get_end_of_day rt (Some t) None"
  from errs have c: "\<forall>r \<in> set repos. github_only (snd (get_commits r n ?s ?e))"
    and p: "\<forall>r \<in> set repos. \<forall>st. github_only (snd (get_pulls r st))"
    and i: "\<forall>r \<in> set repos. \<forall>st c. github_only (snd (get_issues r st c))"
    by blast+
  have "get_commits_for_date rt gh t (Some n) =
          Inr (concat (map (\<lambda>r. map (mk_commit_data r) (fst (get_commits r n ?s ?e))) repos))"
    using repos commits_loop_merge[OF c, of "[]"]
    by (simp add: get_commits_for_date_def resolve_username_def Let_def)
  moreover have "get_pull_requests_for_date rt gh t (Some n) =
          Inr (concat (map (\<lambda>r. fst (pulls_of_repo r t ?s n [])) repos))"
    using repos pulls_loop_merge[OF p, of t ?s n "[]"]
    by (simp add: get_pull_requests_for_date_def resolve_username_def Let_def)
  moreover have "get_issues_for_date rt gh t (Some n) =
          Inr (concat (map (\<lambda>r. fst (issues_of_repo r t ?s n [])) repos))"
    using repos issues_loop_merge[OF i, of t ?s n "[]"]
    by (simp add: get_issues_for_date_def resolve_username_def Let_def)
  ultimately show ?thesis
    by (simp add: get_daily_activity_def Let_def)
qed

text \<open>
  Access revoked on the first repository, the second fine, the third rate-limited after
  one commit: the snapshot holds the second's commit and the third's first.
\<close>

theorem aggregation_isolates_github_errors_witness:
  "get_user_repos (ex_github ex_repos_mixed) = Inr ex_repos_mixed \<and>
   list_all (\<lambda>r. (\<forall>a s e. github_only (snd (get_commits r a s e))) \<and>
                  (\<forall>st. github_only (snd (get_pulls r st))) \<and>
                  (\<forall>st c. github_only (snd (get_issues r st c)))) ex_repos_mixed \<and>
   (\<exists>a. get_daily_activity ex_rt (ex_github ex_repos_mixed) ex_day (Some ''testuser'') = Inr a \<and>
        map cd_repository (a_commits a) = [''testuser/repo1'', ''testuser/flaky''] \<and>
        a_commits_count a = 2 \<and> a_pull_requests a = [] \<and> a_issues a = [] \<and>
        a_repositories a = [''testuser/flaky'', ''testuser/repo1''])"
proof -
  have repos: "get_user_repos (ex_github ex_repos_mixed) = Inr ex_repos_mixed"
    by (simp add: get_user_repos_def user_prop_def ex_github_def)
  have errs: "\<forall>r \<in> set ex_repos_mixed.
      (\<forall>a s e. github_only (snd (get_commits r a s e))) \<and>
      (\<forall>st. github_only (snd (get_pulls r st))) \<and>
      (\<forall>st c. github_only (snd (get_issues r st c)))"
    by (simp add: ex_repos_mixed_def ex_repo_def)
  from aggregation_isolates_github_errors [OF repos errs, of ex_rt ex_day "''testuser''"]
  obtain a where a:
    "get_daily_activity ex_rt (ex_github ex_repos_mixed) ex_day (Some ''testuser'') = Inr a"
    by blast
  then have b: "map cd_repository (a_commits a) = [''testuser/repo1'', ''testuser/flaky''] \<and>
        a_commits_count a = 2 \<and> a_pull_requests a = [] \<and> a_issues a = [] \<and>
        a_repositories a = [''testuser/flaky'', ''testuser/repo1'']"
    by (auto simp: github_defs time_defs ex_defs Let_def)
  from a b have "\<exists>a. get_daily_activity ex_rt (ex_github ex_repos_mixed) ex_day
          (Some ''testuser'') = Inr a \<and>
        map cd_repository (a_commits a) = [''testuser/repo1'', ''testuser/flaky''] \<and>
        a_commits_count a = 2 \<and> a_pull_requests a = [] \<and> a_issues a = [] \<and>
        a_repositories a = [''testuser/flaky'', ''testuser/repo1'']"
    by (intro exI [of _ a] conjI) simp_all
  with repos errs show ?thesis
    by (simp add: list_all_iff)
qed

text \<open>
  Claim C5 as stated fails: the aggregator catches \<open>GithubException\<close> only. A timeout
  while fetching the first repository's commits leaves the aggregation call, and the
  second repository's commit reaches no snapshot.
\<close>

theorem aggregation_isolates_errors_counterexample:
  "get_daily_activity ex_rt (ex_github ex_repos_timeout) ex_day (Some ''testuser'') =
     Inl (OtherException ''Connection timed out'')"
  by (simp add: github_defs time_defs ex_defs Let_def)








section \<open>The Daily Record Store\<close>

lemma database_of_raced:
  "get_by_date (database_of (s\<lparr>needs_rollback := b\<rparr>)) k t = get_by_date s k t"
  by (simp add: database_of_def get_by_date_def)

text \<open>
  Claim C6, as amended. On a session in working order: when a record for the key exists
  at the moment \<open>get_or_create\<close> looks for it, that record is returned and nothing is
  written. When none exists and no other caller interferes, an empty record is inserted
  and returned. When none exists at the read and another caller creates the record
  before this call's insert, \<open>get_or_create\<close> does not read again: the
  \<open>IntegrityError\<close> of the refused insert leaves it, the session is left awaiting a
  rollback, and the other caller's record is in the database.
\<close>

theorem get_or_create_conflict:
  "(\<not> needs_rollback d \<and> get_by_date d k t = Some l \<longrightarrow>
      get_or_create rt ev d k t = (Inr l, d)) \<and>
   (\<not> needs_rollback d \<and> get_by_date d k t = None \<and> \<not> racing_create ev \<longrightarrow>
      get_or_create rt ev d k t =
        (Inr ((new_daily_log k t)\<lparr>lid := log_seq d + 1\<rparr>), with_fresh_log d k t)) \<and>
   (\<not> needs_rollback d \<and> get_by_date d k t = None \<and> racing_create ev \<longrightarrow>
      get_or_create rt ev d k t =
        (Inl (IntegrityError (integrity_text rt)),
         (with_fresh_log d k t)\<lparr>needs_rollback := True\<rparr>) \<and>
      get_by_date (database_of ((with_fresh_log d k t)\<lparr>needs_rollback := True\<rparr>)) k t
        = Some ((new_daily_log k t)\<lparr>lid := log_seq d + 1\<rparr>))"
proof (intro conjI impI)
  assume "\<not> needs_rollback d \<and> get_by_date d k t = Some l"
  then show "get_or_create rt ev d k t = (Inr l, d)"
    by (simp add: get_or_create_existing)
next
  assume "\<not> needs_rollback d \<and> get_by_date d k t = None \<and> \<not> racing_create ev"
  then show "get_or_create rt ev d k t =
        (Inr ((new_daily_log k t)\<lparr>lid := log_seq d + 1\<rparr>), with_fresh_log d k t)"
    by (simp add: get_or_create_absent)
next
  assume a: "\<not> needs_rollback d \<and> get_by_date d k t = None \<and> racing_create ev"
  then show "get_or_create rt ev d k t =
        (Inl (IntegrityError (integrity_text rt)),
         (with_fresh_log d k t)\<lparr>needs_rollback := True\<rparr>)"
    by (simp add: get_or_create_raced)
  from a show "get_by_date (database_of ((with_fresh_log d k t)\<lparr>needs_rollback := True\<rparr>)) k t
        = Some ((new_daily_log k t)\<lparr>lid := log_seq d + 1\<rparr>)"
    by (simp add: database_of_raced get_by_date_with_fresh_log)
qed

text \<open>
  On the empty store: the raced call raises; the unraced call creates record 1; and once
  the record is there, even a raced call returns it.
\<close>

theorem get_or_create_conflict_witness:
  "\<not> needs_rollback (get_db ex_db) \<and>
   get_by_date (get_db ex_db) 1 ex_day = None \<and> racing_create ex_env_racing \<and>
   \<not> racing_create ex_env_one \<and>
   fst (get_or_create ex_rt ex_env_racing (get_db ex_db) 1 ex_day) =
     Inl (IntegrityError (integrity_text ex_rt)) \<and>
   needs_rollback (snd (get_or_create ex_rt ex_env_racing (get_db ex_db) 1 ex_day)) \<and>
   get_by_date (database_of (snd (get_or_create ex_rt ex_env_racing (get_db ex_db) 1 ex_day)))
       1 ex_day =
     Some ((new_daily_log 1 ex_day)\<lparr>lid := 1\<rparr>) \<and>
   get_or_create ex_rt ex_env_one (get_db ex_db) 1 ex_day =
     (Inr ((new_daily_log 1 ex_day)\<lparr>lid := 1\<rparr>), with_fresh_log (get_db ex_db) 1 ex_day) \<and>
   \<not> needs_rollback (with_fresh_log (get_db ex_db) 1 ex_day) \<and>
   get_by_date (with_fresh_log (get_db ex_db) 1 ex_day) 1 ex_day =
     Some ((new_daily_log 1 ex_day)\<lparr>lid := 1\<rparr>) \<and>
   get_or_create ex_rt ex_env_racing (with_fresh_log (get_db ex_db) 1 ex_day) 1 ex_day =
     (Inr ((new_daily_log 1 ex_day)\<lparr>lid := 1\<rparr>), with_fresh_log (get_db ex_db) 1 ex_day)"
proof -
  have idle: "\<not> needs_rollback (get_db ex_db)"
    by (simp add: get_db_def)
  have none: "get_by_date (get_db ex_db) 1 ex_day = None"
    by (simp add: get_by_date_def get_db_def ex_db_def)
  have seq: "log_seq (get_db ex_db) = 0"
    by (simp add: get_db_def ex_db_def)
  have idle1: "\<not> needs_rollback (with_fresh_log (get_db ex_db) 1 ex_day)"
    using idle by simp
  have some: "get_by_date (with_fresh_log (get_db ex_db) 1 ex_day) 1 ex_day =
     Some ((new_daily_log 1 ex_day)\<lparr>lid := 1\<rparr>)"
    using get_by_date_with_fresh_log[OF none] seq by simp
  have racing: "racing_create ex_env_racing" "\<not> racing_create ex_env_one"
    by (simp_all add: ex_env_racing_def ex_env_one_def ex_env_def)
  note raced = get_or_create_conflict
    [where d="get_db ex_db" and k=1 and t=ex_day and ev=ex_env_racing and rt=ex_rt]
  note calm = get_or_create_conflict
    [where d="get_db ex_db" and k=1 and t=ex_day and ev=ex_env_one and rt=ex_rt]
  note again = get_or_create_conflict
    [where d="with_fresh_log (get_db ex_db) 1 ex_day" and k=1 and t=ex_day
       and ev=ex_env_racing and rt=ex_rt and l="(new_daily_log 1 ex_day)\<lparr>lid := 1\<rparr>"]
  from idle none seq idle1 some racing raced calm again show ?thesis
    by simp
qed

text \<open>
  Claim C6 as stated fails: with another caller creating the record between the read
  and the insert, \<open>get_or_create\<close> returns no record but raises, although the record
  is in the database to be read.
\<close>

theorem get_or_create_conflict_counterexample:
  "get_by_date (get_db ex_db) (uid ex_user) ex_day = None \<and>
   fst (get_or_create ex_rt ex_env_racing (get_db ex_db) (uid ex_user) ex_day) =
     Inl (IntegrityError (integrity_text ex_rt)) \<and>
   get_by_date
     (database_of (snd (get_or_create ex_rt ex_env_racing (get_db ex_db) (uid ex_user) ex_day)))
     (uid ex_user) ex_day \<noteq> None"
  by (simp add: store_defs ex_defs Let_def)

section \<open>Reply Ingestion\<close>

lemma database_of_get_db [simp]: "database_of (get_db d) = d"
  by (simp add: database_of_def get_db_def)

text \<open>
  The handler as written never returns its success dictionary: every path ends in an
  \<open>HTTPException\<close>, the one through a known sender because of the attribute read
  \<open>user.timezone\<close>.
\<close>

lemma handle_email_reply_never_succeeds:
  "\<exists>status detail. fst (handle_email_reply rt ev d pl) = Inl (HTTPException status detail)"
  by (simp add: handle_email_reply_def handle_email_reply_on_def user_timezone_def
                internal_error_def Let_def
           split: sum.splits option.splits prod.splits)

text \<open>
  Claim C9, as amended. An inbound reply whose \<open>to\<close> list is absent or not empty,
  with a sender address and a non-empty body, whose sender is the address of no user of
  the store, active or not, is rejected with the explicit error 404 \<open>User not found\<close>,
  and the store is left as it was: no Daily Record is created or modified.
\<close>

theorem unknown_sender_rejected:
  assumes "pl_to pl \<noteq> Some []"
      and "pl_from_email pl = Some sender" and "sender \<noteq> ''''"
      and "reply_body pl \<noteq> ''''"
      and "\<forall>u \<in> set (users d). email u \<noteq> sender"
  shows "handle_email_reply rt ev d pl =
           (Inl (HTTPException 404 (''User not found: '' @ sender)), d)"
proof -
  from assms(1) have "\<exists>to_email. first_to_email pl = Inr to_email"
    by (cases "pl_to pl"; cases "the (pl_to pl)") (simp_all add: first_to_email_def)
  then obtain to_email where "first_to_email pl = Inr to_email" ..
  moreover have "get_by_email (get_db d) sender = None"
    using assms(5) by (simp add: get_by_email_def find_None_iff get_db_def)
  ultimately show ?thesis
    using assms(2-4)
    by (simp add: handle_email_reply_def handle_email_reply_on_def reply_body_def Let_def
                  session_use_def get_db_def database_of_def)
qed

text \<open>
  A reply from an address the store has never seen.
\<close>

theorem unknown_sender_rejected_witness:
  "pl_to (ex_payload ''stranger@example.com'' ''Hello'') \<noteq> Some [] \<and>
   pl_from_email (ex_payload ''stranger@example.com'' ''Hello'') = Some ''stranger@example.com'' \<and>
   ''stranger@example.com'' \<noteq> '''' \<and>
   reply_body (ex_payload ''stranger@example.com'' ''Hello'') \<noteq> '''' \<and>
   map email (users ex_db) = [''test@example.com''] \<and>
   handle_email_reply ex_rt ex_env_one ex_db (ex_payload ''stranger@example.com'' ''Hello'') =
     (Inl (HTTPException 404 ''User not found: stranger@example.com''), ex_db)"
proof -
  have a: "pl_to (ex_payload ''stranger@example.com'' ''Hello'') \<noteq> Some []"
    by (simp add: ex_payload_def)
  have b: "pl_from_email (ex_payload ''stranger@example.com'' ''Hello'') = Some ''stranger@example.com''"
    by (simp add: ex_payload_def)
  have c: "''stranger@example.com'' \<noteq> ''''" by simp
  have e: "reply_body (ex_payload ''stranger@example.com'' ''Hello'') \<noteq> ''''"
    by (simp add: reply_body_def ex_payload_def)
  have f: "\<forall>u \<in> set (users ex_db). email u \<noteq> ''stranger@example.com''"
    by (simp add: ex_db_def ex_user_def)
  have g: "map email (users ex_db) = [''test@example.com'']"
    by (simp add: ex_db_def ex_user_def)
  from unknown_sender_rejected [OF a b c e f, of ex_rt ex_env_one] a b c e g
  show ?thesis by simp
qed

text \<open>
  Claim C9 as stated fails. The lookup by address does not read the active flag: in a
  store whose only user is deactivated there is no active user to resolve to, yet that
  user's address resolves, and the reply is not answered with the user-not-found error.
  And a sender that resolves to no user is not always answered with that error: with an
  empty \<open>to\<close> list the answer is 500, with an empty body it is 400.
\<close>

theorem unknown_sender_rejected_counterexample:
  "get_active_users ex_db_inactive = [] \<and>
   get_by_email ex_db_inactive ''gone@example.com'' = Some ex_user_inactive \<and>
   (\<exists>detail. handle_email_reply ex_rt ex_env_one ex_db_inactive
                (ex_payload ''gone@example.com'' ''Still here'') =
              (Inl (HTTPException 500 detail), ex_db_inactive)) \<and>
   get_by_email ex_db ''stranger@example.com'' = None \<and>
   handle_email_reply ex_rt ex_env_one ex_db
       (ex_payload_to_nobody ''stranger@example.com'' ''Hello'') =
     (Inl (HTTPException 500 ''Internal server error: list index out of range''), ex_db) \<and>
   handle_email_reply ex_rt ex_env_one ex_db (ex_payload ''stranger@example.com'' '''') =
     (Inl (HTTPException 400 ''Invalid email data: missing from_email or content''), ex_db)"
  by (simp add: reply_defs store_defs ex_defs Let_def)

text \<open>
  Claim C3: the code falls short of it. A reply with a non-empty body from a known
  sender is not filed under any date and the operation does not succeed: the handler
  reads \<open>user.timezone\<close>, which the \<open>User\<close> model does not have (its column is
  \<open>time_zone\<close>), and the resulting \<open>AttributeError\<close> becomes the answer 500; the store
  is unchanged.
\<close>

theorem reply_from_known_sender_fails:
  "get_by_email ex_db ''test@example.com'' = Some ex_user \<and>
   handle_email_reply ex_rt ex_env_one ex_db
       (ex_payload ''test@example.com'' ''Today I fixed the login bug'') =
     (Inl (HTTPException 500
        (''Internal server error: '' @ [CHR 0x27] @ ''User'' @ [CHR 0x27] @
         '' object has no attribute '' @ [CHR 0x27] @ ''timezone'' @ [CHR 0x27])),
      ex_db)"
  by (simp add: reply_defs store_defs ex_defs Let_def)

text \<open>
  Claim C10: the code falls short of it, by the same defect. A body of three spaces
  passes the emptiness test, which runs on the raw body (the empty body is answered with
  400), and stripping it would give the empty string; but the handler fails at
  \<open>user.timezone\<close> before any record is touched, so no reply text and no reply
  timestamp are stored.
\<close>

theorem whitespace_reply_fails:
  "handle_email_reply ex_rt ex_env_one ex_db (ex_payload ''test@example.com'' ''   '') =
     (Inl (HTTPException 500
        (''Internal server error: '' @ [CHR 0x27] @ ''User'' @ [CHR 0x27] @
         '' object has no attribute '' @ [CHR 0x27] @ ''timezone'' @ [CHR 0x27])),
      ex_db) \<and>
   daily_logs ex_db = [] \<and>
   strip ''   '' = '''' \<and>
   handle_email_reply ex_rt ex_env_one ex_db (ex_payload ''test@example.com'' '''') =
     (Inl (HTTPException 400 ''Invalid email data: missing from_email or content''), ex_db)"
  by (simp add: reply_defs store_defs strip_def is_space_def ex_defs Let_def)

end
